theory Spec2Isabelle
  imports Complex_Main "HOL-Library.Word" "HOL-Library.Log_Nat"
begin

section \<open>The tabular dataset\<close>

text \<open>
  \<^verbatim>\<open>data_sanity_check.py\<close> validates a table read by \<^verbatim>\<open>pandas.read_csv\<close>. The model
  keeps the table as the loader yields it for the data model of the specification: the
  \<^verbatim>\<open>date\<close> column holds text until it is parsed and timestamps afterwards, every other
  column holds 64-bit integers (pandas' \<^verbatim>\<open>int64\<close>: \<open>+\<close> and \<open>sum\<close> wrap around, \<open>sint\<close>
  reads the value). A column is a list with one entry per daily record; which columns
  exist is part of the value, since the checks test for them.

  A timestamp is a number of nanoseconds since the epoch, or \<open>None\<close> for pandas'
  \<^verbatim>\<open>NaT\<close>. Columns with missing values and columns of floating-point numbers are not
  part of the model (no check reads one; \<^verbatim>\<open>total_daily_cost\<close> is only tested for
  presence).
\<close>

type_synonym int64 = "64 word"

type_synonym timestamp = "int option"

datatype date_series = Raw "string list" | Parsed "timestamp list"

record dataframe =
  date_col :: "date_series option"
  num_cols :: "string \<rightharpoonup> int64 list"

datatype error = KeyError string | ParseError | OverflowError

text \<open>\<^verbatim>\<open>col in df.columns\<close>\<close>

definition has_column :: "dataframe \<Rightarrow> string \<Rightarrow> bool" where
  "has_column df c = (if c = ''date'' then date_col df \<noteq> None else num_cols df c \<noteq> None)"

text \<open>\<^verbatim>\<open>df[c]\<close> for a numeric column and for the date column: a missing column raises.\<close>

definition getitem :: "dataframe \<Rightarrow> string \<Rightarrow> error + int64 list" where
  "getitem df c = (case num_cols df c of None \<Rightarrow> Inl (KeyError c) | Some xs \<Rightarrow> Inr xs)"

definition getdate :: "dataframe \<Rightarrow> error + date_series" where
  "getdate df = (case date_col df of None \<Rightarrow> Inl (KeyError ''date'') | Some s \<Rightarrow> Inr s)"

section \<open>Double-precision numbers\<close>

text \<open>
  The distribution and assignment checks compute in \<^verbatim>\<open>float64\<close>. A double is a rational
  on the binary grid, an infinity or NaN; every operation rounds its exact result to the
  nearest double, ties to the even significand (IEEE 754, 53-bit significand, exponents
  from -1022 to 1023, gradual underflow). The sign of zero is not modelled: the checks
  only divide by converted integers and by 3, so nothing observes it.
\<close>

datatype float64 = Finite rat | PosInf | NegInf | NaN

definition round_half_even :: "rat \<Rightarrow> int" where
  "round_half_even x =
     (let f = \<lfloor>x\<rfloor>; r = x - of_int f
      in if r < 1 / 2 then f else if 1 / 2 < r then f + 1 else if even f then f else f + 1)"

text \<open>The exponent \<open>e\<close> with \<open>2 ^ e \<le> \<bar>x\<bar> < 2 ^ (e + 1)\<close>, for \<open>x \<noteq> 0\<close>.\<close>

definition binade :: "rat \<Rightarrow> int" where
  "binade x =
     (let a = \<bar>x\<bar>
      in if 1 \<le> a then bitlen \<lfloor>a\<rfloor> - 1 else - bitlen (\<lceil>1 / a\<rceil> - 1))"

text \<open>
  The nearest number on the grid of the binade of \<open>x\<close>: 53 significant bits, the
  spacing fixed below \<open>2 ^ - 1022\<close>. A result of \<open>2 ^ 1024\<close> or more overflows to an
  infinity.
\<close>

definition expo :: "rat \<Rightarrow> int" where
  "expo x = max (binade x) (- 1022)"

definition nearest :: "rat \<Rightarrow> rat" where
  "nearest x =
     (if x = 0 then 0
      else let q = 2 powi (expo x - 52)
           in of_int (round_half_even (x / q)) * q)"

definition to_double :: "rat \<Rightarrow> float64" where
  "to_double x =
     (let y = nearest x
      in if 2 powi 1024 \<le> \<bar>y\<bar> then (if 0 < x then PosInf else NegInf) else Finite y)"

text \<open>\<^verbatim>\<open>int64\<close> to \<^verbatim>\<open>float64\<close>, as numpy converts an integer operand of a true division.\<close>

definition i2f :: "int64 \<Rightarrow> float64" where
  "i2f w = to_double (of_int (sint w))"

fun fdiv :: "float64 \<Rightarrow> float64 \<Rightarrow> float64" where
  "fdiv (Finite a) (Finite b) =
     (if b = 0 then (if a = 0 then NaN else if 0 < a then PosInf else NegInf)
      else to_double (a / b))"
| "fdiv (Finite a) PosInf = Finite 0"
| "fdiv (Finite a) NegInf = Finite 0"
| "fdiv PosInf (Finite b) = (if 0 \<le> b then PosInf else NegInf)"
| "fdiv NegInf (Finite b) = (if 0 \<le> b then NegInf else PosInf)"
| "fdiv _ _ = NaN"

fun fsub :: "float64 \<Rightarrow> float64 \<Rightarrow> float64" where
  "fsub (Finite a) (Finite b) = to_double (a - b)"
| "fsub NaN _ = NaN"
| "fsub _ NaN = NaN"
| "fsub PosInf PosInf = NaN"
| "fsub NegInf NegInf = NaN"
| "fsub PosInf _ = PosInf"
| "fsub NegInf _ = NegInf"
| "fsub (Finite a) PosInf = NegInf"
| "fsub (Finite a) NegInf = PosInf"

fun fmul :: "float64 \<Rightarrow> float64 \<Rightarrow> float64" where
  "fmul (Finite a) (Finite b) = to_double (a * b)"
| "fmul NaN _ = NaN"
| "fmul _ NaN = NaN"
| "fmul (Finite a) PosInf = (if a = 0 then NaN else if 0 < a then PosInf else NegInf)"
| "fmul (Finite a) NegInf = (if a = 0 then NaN else if 0 < a then NegInf else PosInf)"
| "fmul PosInf (Finite b) = (if b = 0 then NaN else if 0 < b then PosInf else NegInf)"
| "fmul NegInf (Finite b) = (if b = 0 then NaN else if 0 < b then NegInf else PosInf)"
| "fmul PosInf PosInf = PosInf"
| "fmul NegInf NegInf = PosInf"
| "fmul PosInf NegInf = NegInf"
| "fmul NegInf PosInf = NegInf"

fun fabs :: "float64 \<Rightarrow> float64" where
  "fabs (Finite a) = Finite \<bar>a\<bar>"
| "fabs PosInf = PosInf"
| "fabs NegInf = PosInf"
| "fabs NaN = NaN"

text \<open>Comparisons: every comparison with NaN is false.\<close>

fun fle :: "float64 \<Rightarrow> float64 \<Rightarrow> bool" where
  "fle NaN _ = False"
| "fle _ NaN = False"
| "fle (Finite a) (Finite b) = (a \<le> b)"
| "fle NegInf _ = True"
| "fle _ PosInf = True"
| "fle _ _ = False"

definition fgt :: "float64 \<Rightarrow> float64 \<Rightarrow> bool" where
  "fgt x y = (x \<noteq> NaN \<and> y \<noteq> NaN \<and> \<not> fle x y)"

text \<open>\<^verbatim>\<open>Series.between(lo, hi)\<close> on doubles and on integers, both ends included.\<close>

definition between_f :: "float64 \<Rightarrow> float64 \<Rightarrow> float64 \<Rightarrow> bool" where
  "between_f x lo hi = (fle lo x \<and> fle x hi)"

definition between_i :: "int64 \<Rightarrow> int \<Rightarrow> int \<Rightarrow> bool" where
  "between_i x lo hi = (lo \<le> sint x \<and> sint x \<le> hi)"

section \<open>Timestamps\<close>

text \<open>
  \<^verbatim>\<open>pd.to_datetime\<close> is pandas' parser, an external collaborator: the model takes its
  action on one text cell as a parameter \<open>parse\<close>, which answers \<open>None\<close> for text it
  rejects and a timestamp (possibly \<^verbatim>\<open>NaT\<close>) otherwise. One rejected cell raises. A column
  that already holds timestamps is returned as it is.
\<close>

fun parse_all :: "(string \<Rightarrow> timestamp option) \<Rightarrow> string list \<Rightarrow> error + timestamp list" where
  "parse_all parse [] = Inr []"
| "parse_all parse (s # ss) =
     (case parse s of
        None \<Rightarrow> Inl ParseError
      | Some t \<Rightarrow> (case parse_all parse ss of Inl e \<Rightarrow> Inl e | Inr ts \<Rightarrow> Inr (t # ts)))"

fun to_datetime :: "(string \<Rightarrow> timestamp option) \<Rightarrow> date_series \<Rightarrow> error + timestamp list" where
  "to_datetime parse (Raw ss) = parse_all parse ss"
| "to_datetime parse (Parsed ts) = Inr ts"

text \<open>
  \<^verbatim>\<open>Series.min()\<close> and \<^verbatim>\<open>Series.max()\<close> skip \<^verbatim>\<open>NaT\<close>; with no timestamp left (an empty
  column among them) the answer is \<^verbatim>\<open>NaT\<close>.
\<close>

definition valid_stamps :: "timestamp list \<Rightarrow> int list" where
  "valid_stamps ts = concat (map (\<lambda>t. case t of None \<Rightarrow> [] | Some n \<Rightarrow> [n]) ts)"

definition series_min :: "timestamp list \<Rightarrow> timestamp" where
  "series_min ts = (case valid_stamps ts of [] \<Rightarrow> None | n # ns \<Rightarrow> Some (fold min ns n))"

definition series_max :: "timestamp list \<Rightarrow> timestamp" where
  "series_max ts = (case valid_stamps ts of [] \<Rightarrow> None | n # ns \<Rightarrow> Some (fold max ns n))"

text \<open>
  \<^verbatim>\<open>max_date - min_date\<close>: a \<^verbatim>\<open>Timedelta\<close> in nanoseconds, \<^verbatim>\<open>NaT\<close> when an operand is, and
  an overflow error when the difference does not fit 64 bits. \<^verbatim>\<open>.days\<close> is the number of
  whole days in it, and NaN on \<^verbatim>\<open>NaT\<close>.
\<close>

definition timedelta :: "timestamp \<Rightarrow> timestamp \<Rightarrow> error + int option" where
  "timedelta a b =
     (case (a, b) of
        (Some x, Some y) \<Rightarrow>
          (if - (2 ^ 63) < x - y \<and> x - y < 2 ^ 63 then Inr (Some (x - y)) else Inl OverflowError)
      | _ \<Rightarrow> Inr None)"

definition ns_per_day :: int where
  "ns_per_day = 86400000000000"

definition days :: "int option \<Rightarrow> int option" where
  "days d = map_option (\<lambda>n. n div ns_per_day) d"

text \<open>\<open>None\<close> is NaN here: \<^verbatim>\<open>num_days < 170\<close> and \<^verbatim>\<open>num_days > 190\<close> are both false on it.\<close>

definition nan_less :: "int option \<Rightarrow> int \<Rightarrow> bool" where
  "nan_less d k = (case d of None \<Rightarrow> False | Some n \<Rightarrow> n < k)"

definition nan_greater :: "int option \<Rightarrow> int \<Rightarrow> bool" where
  "nan_greater d k = (case d of None \<Rightarrow> False | Some n \<Rightarrow> k < n)"

section \<open>The checks\<close>

text \<open>
  Every check prints and returns a boolean; two of them assign a column. A check is a
  function from the dataset to either the exception that escapes it or its boolean, the
  dataset as it leaves it, and what it printed. A printed line is a constructor holding
  the values the line shows (the wording and number formats are not modelled).
\<close>

datatype msg =
    MissingRequired "string list"
  | AllRequiredPresent
  | DateRangeBad "int option"
  | DateRangeOk "int option"
  | BlocksOutOfRange
  | BlocksInRange
  | WorkloadsOutOfRange
  | WorkloadsInRange
  | DistributionUnequal
  | DistributionTotals int64 int64 int64 float64
  | DistributionEqual
  | MissingAssignment "string list"
  | AssignmentMismatch
  | RatioTodayBad
  | RatioOlderBad
  | AssignmentOk
  | CheckingColumns
  | CheckingDateRange
  | CheckingBlocks
  | CheckingWorkloads
  | CheckingDistribution
  | AllPassed
  | SomeFailed

type_synonym outcome = "error + bool \<times> dataframe \<times> msg list"

definition expected_columns :: "string list" where
  "expected_columns =
     [''date'', ''new_blocks_atom'', ''new_blocks_photon'', ''new_blocks_spin'',
      ''workloads_older_blocks'', ''workloads_new_blocks'', ''total_daily_cost'']"

definition check_required_columns :: "dataframe \<Rightarrow> outcome" where
  "check_required_columns df =
     (let missing = filter (\<lambda>col. \<not> has_column df col) expected_columns
      in if missing \<noteq> [] then Inr (False, df, [MissingRequired missing])
         else Inr (True, df, [AllRequiredPresent]))"

definition check_date_range_six_months :: "(string \<Rightarrow> timestamp option) \<Rightarrow> dataframe \<Rightarrow> outcome" where
  "check_date_range_six_months parse df =
     (case getdate df of
        Inl e \<Rightarrow> Inl e
      | Inr raw \<Rightarrow>
     (case to_datetime parse raw of
        Inl e \<Rightarrow> Inl e
      | Inr ts \<Rightarrow>
     (let df' = df\<lparr>date_col := Some (Parsed ts)\<rparr>;
          min_date = series_min ts;
          max_date = series_max ts
      in case timedelta max_date min_date of
           Inl e \<Rightarrow> Inl e
         | Inr delta \<Rightarrow>
             (let num_days = days delta
              in if nan_less num_days 170 \<or> nan_greater num_days 190
                 then Inr (False, df', [DateRangeBad num_days])
                 else Inr (True, df', [DateRangeOk num_days])))))"

text \<open>Element-wise \<open>+\<close> of two columns of one table.\<close>

definition series_add :: "int64 list \<Rightarrow> int64 list \<Rightarrow> int64 list" where
  "series_add xs ys = map (\<lambda>(x, y). x + y) (zip xs ys)"

definition check_blocks_leased_range :: "dataframe \<Rightarrow> outcome" where
  "check_blocks_leased_range df =
     (case getitem df ''new_blocks_atom'' of
        Inl e \<Rightarrow> Inl e
      | Inr atom \<Rightarrow>
     (case getitem df ''new_blocks_photon'' of
        Inl e \<Rightarrow> Inl e
      | Inr photon \<Rightarrow>
     (case getitem df ''new_blocks_spin'' of
        Inl e \<Rightarrow> Inl e
      | Inr spin \<Rightarrow>
     (let leased = series_add (series_add atom photon) spin;
          df' = df\<lparr>num_cols := (num_cols df)(''total_blocks_leased'' \<mapsto> leased)\<rparr>
      in case getitem df' ''total_blocks_leased'' of
           Inl e \<Rightarrow> Inl e
         | Inr stored \<Rightarrow>
             if \<not> list_all (\<lambda>x. between_i x 1000 10000) stored
             then Inr (False, df', [BlocksOutOfRange])
             else Inr (True, df', [BlocksInRange])))))"

definition check_workload_range :: "dataframe \<Rightarrow> outcome" where
  "check_workload_range df =
     (case getitem df ''total_workloads'' of
        Inl e \<Rightarrow> Inl e
      | Inr workloads \<Rightarrow>
          if \<not> list_all (\<lambda>x. between_i x 1000000 50000000) workloads
          then Inr (False, df, [WorkloadsOutOfRange])
          else Inr (True, df, [WorkloadsInRange]))"

text \<open>
  The tolerance is any double the caller passes, NaN and the infinities among them. The
  default is the double that Python reads from the literal \<^verbatim>\<open>0.05\<close>.
\<close>

definition default_tolerance :: float64 where
  "default_tolerance = to_double (1 / 20)"

definition check_equal_distribution :: "dataframe \<Rightarrow> float64 \<Rightarrow> outcome" where
  "check_equal_distribution df tolerance =
     (case getitem df ''new_blocks_atom'' of
        Inl e \<Rightarrow> Inl e
      | Inr atom \<Rightarrow>
     (case getitem df ''new_blocks_photon'' of
        Inl e \<Rightarrow> Inl e
      | Inr photon \<Rightarrow>
     (case getitem df ''new_blocks_spin'' of
        Inl e \<Rightarrow> Inl e
      | Inr spin \<Rightarrow>
     (let total_atom = sum_list atom;
          total_photon = sum_list photon;
          total_spin = sum_list spin;
          avg = fdiv (i2f (total_atom + total_photon + total_spin)) (Finite 3);
          diff_atom = fabs (fsub (i2f total_atom) avg);
          diff_photon = fabs (fsub (i2f total_photon) avg);
          diff_spin = fabs (fsub (i2f total_spin) avg);
          limit = fmul tolerance avg
      in if fgt diff_atom limit \<or> fgt diff_photon limit \<or> fgt diff_spin limit
         then Inr (False, df,
                [DistributionUnequal, DistributionTotals total_atom total_photon total_spin avg])
         else Inr (True, df, [DistributionEqual])))))"

text \<open>The literals \<^verbatim>\<open>0.50\<close>, \<^verbatim>\<open>0.60\<close> and \<^verbatim>\<open>0.40\<close>, read as doubles.\<close>

definition lit_0_50 :: float64 where "lit_0_50 = to_double (1 / 2)"
definition lit_0_60 :: float64 where "lit_0_60 = to_double (3 / 5)"
definition lit_0_40 :: float64 where "lit_0_40 = to_double (2 / 5)"

text \<open>Element-wise true division of two integer columns.\<close>

definition series_div :: "int64 list \<Rightarrow> int64 list \<Rightarrow> float64 list" where
  "series_div xs ys = map (\<lambda>(x, y). fdiv (i2f x) (i2f y)) (zip xs ys)"

definition required_cols :: "string list" where
  "required_cols = [''total_workloads'', ''workloads_new_blocks'', ''workloads_older_blocks'']"

definition check_workload_assignment :: "dataframe \<Rightarrow> outcome" where
  "check_workload_assignment df =
     (let missing = filter (\<lambda>col. \<not> has_column df col) required_cols
      in if missing \<noteq> [] then Inr (False, df, [MissingAssignment missing])
         else
     (case getitem df ''workloads_new_blocks'' of
        Inl e \<Rightarrow> Inl e
      | Inr new \<Rightarrow>
     (case getitem df ''workloads_older_blocks'' of
        Inl e \<Rightarrow> Inl e
      | Inr older \<Rightarrow>
     (case getitem df ''total_workloads'' of
        Inl e \<Rightarrow> Inl e
      | Inr workloads \<Rightarrow>
          if \<not> list_all (\<lambda>(s, t). s = t) (zip (series_add new older) workloads)
          then Inr (False, df, [AssignmentMismatch])
          else
            (let ratio_today = series_div new workloads;
                 ratio_older = series_div older workloads
             in if \<not> list_all (\<lambda>r. between_f r lit_0_50 lit_0_60) ratio_today
                then Inr (False, df, [RatioTodayBad])
                else if \<not> list_all (\<lambda>r. between_f r lit_0_40 lit_0_50) ratio_older
                then Inr (False, df, [RatioOlderBad])
                else Inr (True, df, [AssignmentOk]))))))"

text \<open>
  The orchestrator. Loading the file is the loader's work: the model starts from the
  table it yields. An exception in a check ends the run.
\<close>

definition run_all_checks :: "(string \<Rightarrow> timestamp option) \<Rightarrow> dataframe \<Rightarrow> outcome" where
  "run_all_checks parse df =
     (case check_required_columns df of
        Inl e \<Rightarrow> Inl e
      | Inr (cols_ok, df1, out1) \<Rightarrow>
     (case check_date_range_six_months parse df1 of
        Inl e \<Rightarrow> Inl e
      | Inr (date_ok, df2, out2) \<Rightarrow>
     (case check_blocks_leased_range df2 of
        Inl e \<Rightarrow> Inl e
      | Inr (blocks_ok, df3, out3) \<Rightarrow>
     (case check_workload_range df3 of
        Inl e \<Rightarrow> Inl e
      | Inr (workload_ok, df4, out4) \<Rightarrow>
     (case check_equal_distribution df4 default_tolerance of
        Inl e \<Rightarrow> Inl e
      | Inr (distribution_ok, df5, out5) \<Rightarrow>
     (let all_checks = (cols_ok \<and> date_ok \<and> blocks_ok \<and> workload_ok \<and> distribution_ok)
      in Inr (all_checks, df5,
           [CheckingColumns] @ out1 @ [CheckingDateRange] @ out2 @ [CheckingBlocks] @ out3 @
           [CheckingWorkloads] @ out4 @ [CheckingDistribution] @ out5 @
           [if all_checks then AllPassed else SomeFailed])))))))"

section \<open>The properties, in the words of the specification\<close>

text \<open>
  The blocks volume rule: \<^verbatim>\<open>total_blocks_leased\<close> is, record by record, the sum of the
  three category columns.
\<close>

definition leased_totals :: "int64 list \<Rightarrow> int64 list \<Rightarrow> int64 list \<Rightarrow> int64 list" where
  "leased_totals atom photon spin = map (\<lambda>(a, p, s). a + p + s) (zip atom (zip photon spin))"

text \<open>
  The distribution rule, in exact arithmetic. The cumulative total of a column is the
  sum of its values, an integer; the average of three totals is a third of their sum; a
  total is within the tolerance when its distance from the average is at most the
  tolerance times the average.
\<close>

definition cumulative :: "int64 list \<Rightarrow> int" where
  "cumulative xs = sum_list (map sint xs)"

definition average :: "int \<Rightarrow> int \<Rightarrow> int \<Rightarrow> rat" where
  "average a p s = of_int (a + p + s) / 3"

definition distance :: "int \<Rightarrow> rat \<Rightarrow> rat" where
  "distance t avg = \<bar>of_int t - avg\<bar>"

text \<open>
  What the roundings of the check can move a distance and a limit apart: eight units in
  the last place of the average, and of the tolerance times the average.
\<close>

definition rounding_margin :: "rat \<Rightarrow> rat \<Rightarrow> rat" where
  "rounding_margin tolerance avg = (1 + \<bar>tolerance\<bar>) * avg / 2 ^ 50"

text \<open>
  The assignment rule for one record, in exact arithmetic: the two parts add up to the
  total, the share of the new blocks lies in [0.50, 0.60] and the share of the older
  blocks in [0.40, 0.50]. A share of a total of zero lies in no interval.
\<close>

definition ratio :: "int \<Rightarrow> int \<Rightarrow> rat" where
  "ratio part whole = of_int part / of_int whole"

definition assignment_rule :: "int \<Rightarrow> int \<Rightarrow> int \<Rightarrow> bool" where
  "assignment_rule new older workloads =
     (workloads \<noteq> 0 \<and> new + older = workloads \<and>
      1 / 2 \<le> ratio new workloads \<and> ratio new workloads \<le> 3 / 5 \<and>
      2 / 5 \<le> ratio older workloads \<and> ratio older workloads \<le> 1 / 2)"

text \<open>
  The date rule: the time from the earliest to the latest timestamp of a column, in
  nanoseconds; a column that holds no timestamp has none.
\<close>

definition span_ns :: "timestamp list \<Rightarrow> int option" where
  "span_ns ts =
     (case valid_stamps ts of
        [] \<Rightarrow> None
      | n # ns \<Rightarrow> Some (Max (set (n # ns)) - Min (set (n # ns))))"

section \<open>Example datasets\<close>

text \<open>
  A parser for the two dates of the examples (midnight of 1 January 2024 and of
  29 June 2024, 180 days later) and for the text \<^verbatim>\<open>NaT\<close>; it rejects everything else.
\<close>

definition example_parse :: "string \<Rightarrow> timestamp option" where
  "example_parse s =
     (if s = ''2024-01-01'' then Some (Some 1704067200000000000)
      else if s = ''2024-06-29'' then Some (Some 1719619200000000000)
      else if s = ''NaT'' then Some None
      else None)"

text \<open>Two records with exactly the seven columns the schema check asks for.\<close>

definition required_only :: dataframe where
  "required_only =
     \<lparr>date_col = Some (Raw [''2024-01-01'', ''2024-06-29'']),
      num_cols =
        [''new_blocks_atom'' \<mapsto> [400, 400],
         ''new_blocks_photon'' \<mapsto> [400, 400],
         ''new_blocks_spin'' \<mapsto> [300, 500],
         ''workloads_older_blocks'' \<mapsto> [450000, 900000],
         ''workloads_new_blocks'' \<mapsto> [550000, 1100000],
         ''total_daily_cost'' \<mapsto> [100, 100]]\<rparr>"

text \<open>The same two records with the column \<^verbatim>\<open>total_workloads\<close>, and the table after a run.\<close>

definition half_year :: dataframe where
  "half_year =
     required_only\<lparr>num_cols := (num_cols required_only)(''total_workloads'' \<mapsto> [1000000, 2000000])\<rparr>"

definition half_year_parsed :: dataframe where
  "half_year_parsed =
     half_year\<lparr>date_col := Some (Parsed [Some 1704067200000000000, Some 1719619200000000000])\<rparr>"

definition half_year_checked :: dataframe where
  "half_year_checked =
     half_year_parsed\<lparr>num_cols := (num_cols half_year)(''total_blocks_leased'' \<mapsto> [1100, 1300])\<rparr>"

text \<open>The half-year table with a date that the parser rejects.\<close>

definition unparseable_date :: dataframe where
  "unparseable_date = half_year\<lparr>date_col := Some (Raw [''2024-01-01'', ''29 June''])\<rparr>"

text \<open>A file with a header line and no record.\<close>

definition header_only :: dataframe where
  "header_only =
     \<lparr>date_col = Some (Raw []),
      num_cols =
        [''new_blocks_atom'' \<mapsto> [],
         ''new_blocks_photon'' \<mapsto> [],
         ''new_blocks_spin'' \<mapsto> [],
         ''workloads_older_blocks'' \<mapsto> [],
         ''workloads_new_blocks'' \<mapsto> [],
         ''total_daily_cost'' \<mapsto> [],
         ''total_workloads'' \<mapsto> []]\<rparr>"


definition one_day_workloads :: "int64 \<Rightarrow> int64 \<Rightarrow> int64 \<Rightarrow> dataframe" where
  "one_day_workloads workloads new older =
     \<lparr>date_col = None,
      num_cols = [''total_workloads'' \<mapsto> [workloads], ''workloads_new_blocks'' \<mapsto> [new],
                  ''workloads_older_blocks'' \<mapsto> [older]]\<rparr>"

section \<open>Rounding to double precision\<close>

text \<open>
  The exponent search is right: a nonzero rational lies in the binade it is given.
\<close>

lemma binade_ge1:
  fixes a :: rat
  assumes "1 \<le> a"
  shows "2 powi (bitlen \<lfloor>a\<rfloor> - 1) \<le> a" and "a < 2 powi (bitlen \<lfloor>a\<rfloor> - 1 + 1)"
proof -
  define m where "m = \<lfloor>a\<rfloor>"
  define b where "b = bitlen m"
  have m1: "1 \<le> m" using assms unfolding m_def by simp
  have b1: "1 \<le> b" using m1 unfolding b_def by (simp add: bitlen_alt_def)
  have lo: "2 ^ nat (b - 1) \<le> m" and hi: "m < 2 ^ nat b"
    using bitlen_bounds [of m] m1 unfolding b_def by auto
  have "(2::rat) powi (b - 1) = 2 ^ nat (b - 1)"
    using b1 by (simp add: power_int_nonneg_exp)
  also have "\<dots> = of_int (2 ^ nat (b - 1))" by simp
  also have "\<dots> \<le> of_int m" using lo by (rule iffD2 [OF of_int_le_iff])
  also have "\<dots> \<le> a" unfolding m_def by simp
  finally show "2 powi (bitlen \<lfloor>a\<rfloor> - 1) \<le> a" unfolding b_def m_def .
  have "a < of_int (m + 1)" unfolding m_def by linarith
  also have "\<dots> \<le> of_int (2 ^ nat b)" using hi by (intro iffD2 [OF of_int_le_iff]) simp
  also have "\<dots> = (2::rat) ^ nat b" by simp
  also have "\<dots> = 2 powi b" using b1 by (simp add: power_int_nonneg_exp)
  finally show "a < 2 powi (bitlen \<lfloor>a\<rfloor> - 1 + 1)" unfolding b_def m_def by simp
qed

lemma binade_lt1:
  fixes a :: rat
  assumes "0 < a" "a < 1"
  shows "2 powi (- bitlen (\<lceil>1 / a\<rceil> - 1)) \<le> a" and "a < 2 powi (- bitlen (\<lceil>1 / a\<rceil> - 1) + 1)"
proof -
  define r where "r = 1 / a"
  define m where "m = \<lceil>r\<rceil> - 1"
  define b where "b = bitlen m"
  have r1: "1 < r" using assms unfolding r_def by simp
  have a_eq: "a = 1 / r" unfolding r_def by simp
  have m1: "1 \<le> m" using r1 unfolding m_def by (simp add: less_ceiling_iff)
  have b1: "1 \<le> b" using m1 unfolding b_def by (simp add: bitlen_alt_def)
  have lo: "2 ^ nat (b - 1) \<le> m" and hi: "m < 2 ^ nat b"
    using bitlen_bounds [of m] m1 unfolding b_def by auto
  have mr: "of_int m < r" unfolding m_def by linarith
  have rm: "r \<le> of_int (m + 1)" unfolding m_def by (simp add: le_of_int_ceiling)
  have "(of_int (m + 1) :: rat) \<le> of_int (2 ^ nat b)"
    using hi by (intro iffD2 [OF of_int_le_iff]) simp
  then have "r \<le> of_int (2 ^ nat b)"
    using rm by linarith
  then have "r \<le> 2 ^ nat b" by simp
  then have "1 / 2 ^ nat b \<le> 1 / r" using r1 by (simp add: frac_le)
  moreover have "(2::rat) powi (- b) = 1 / 2 ^ nat b"
    using b1 by (simp add: power_int_minus_divide power_int_nonneg_exp)
  ultimately show "2 powi (- bitlen (\<lceil>1 / a\<rceil> - 1)) \<le> a"
    using a_eq unfolding b_def m_def r_def by simp
  have "of_int (2 ^ nat (b - 1)) \<le> (of_int m :: rat)" using lo by (rule iffD2 [OF of_int_le_iff])
  moreover have "(of_int (2 ^ nat (b - 1)) :: rat) = 2 ^ nat (b - 1)" by simp
  ultimately have "2 ^ nat (b - 1) < r" using mr by linarith
  then have "1 / r < 1 / 2 ^ nat (b - 1)" by (simp add: frac_less2)
  moreover have "(2::rat) powi (- b + 1) = 1 / 2 ^ nat (b - 1)"
  proof -
    have "- b + 1 = - (b - 1)" by simp
    then show ?thesis using b1 by (simp only: power_int_minus_divide) (simp add: power_int_nonneg_exp)
  qed
  ultimately show "a < 2 powi (- bitlen (\<lceil>1 / a\<rceil> - 1) + 1)"
    using a_eq unfolding b_def m_def r_def by simp
qed

lemma binade_bounds:
  assumes "x \<noteq> 0"
  shows "2 powi (binade x) \<le> \<bar>x\<bar>" and "\<bar>x\<bar> < 2 powi (binade x + 1)"
  using assms binade_ge1 [of "\<bar>x\<bar>"] binade_lt1 [of "\<bar>x\<bar>"]
  by (auto simp: binade_def Let_def)

text \<open>
  Rounding moves a number by at most half a unit in the last place, so a bounded number
  stays bounded and finite: converted integers and their quotients never overflow.
\<close>

lemma pow2_le_iff: "(2::rat) powi m \<le> 2 powi n \<longleftrightarrow> m \<le> n"
proof
  assume le: "(2::rat) powi m \<le> 2 powi n"
  show "m \<le> n"
  proof (rule ccontr)
    assume "\<not> m \<le> n"
    then have "(2::rat) powi n < 2 powi m" by (intro power_int_strict_increasing) simp_all
    then show False using le by simp
  qed
next
  assume "m \<le> n"
  then show "(2::rat) powi m \<le> 2 powi n" by (intro power_int_increasing) simp_all
qed

lemma pow2_less_iff: "(2::rat) powi m < 2 powi n \<longleftrightarrow> m < n"
  using pow2_le_iff [of n m] by (simp add: not_le [symmetric])

lemma round_half_even_close: "\<bar>of_int (round_half_even z) - z\<bar> \<le> 1 / 2"
proof -
  have "of_int \<lfloor>z\<rfloor> \<le> z" "z < of_int \<lfloor>z\<rfloor> + 1" by linarith+
  then show ?thesis
    by (auto simp: round_half_even_def Let_def)
qed

lemma round_half_even_abs_le:
  assumes "\<bar>z\<bar> \<le> of_int n"
  shows "\<bar>round_half_even z\<bar> \<le> n"
proof -
  have "\<bar>(of_int (round_half_even z) :: rat)\<bar> \<le> of_int n + 1 / 2"
    using round_half_even_close [of z] assms by linarith
  then have "(of_int \<bar>round_half_even z\<bar> :: rat) < of_int (n + 1)" by simp
  then have "\<bar>round_half_even z\<bar> < n + 1" by (simp only: of_int_less_iff)
  then show ?thesis by simp
qed

lemma to_double_bound:
  assumes x: "\<bar>x\<bar> \<le> 2 powi k" and k: "- 1022 \<le> k" "k \<le> 1023"
  shows "\<exists>y. to_double x = Finite y \<and> \<bar>y\<bar> \<le> 2 powi k"
proof (cases "x = 0")
  case True
  then show ?thesis by (simp add: to_double_def nearest_def expo_def)
next
  case False
  define e where "e = max (binade x) (- 1022)"
  define q :: rat where "q = 2 powi (e - 52)"
  define r where "r = round_half_even (x / q)"
  define y :: rat where "y = of_int r * q"
  have "(2::rat) powi (binade x) \<le> 2 powi k"
    using binade_bounds(1) [OF False] x by linarith
  then have "binade x \<le> k" by (simp only: pow2_le_iff)
  then have ek: "e \<le> k" using k unfolding e_def by simp
  have q_pos: "0 < q" unfolding q_def by simp
  define n where "n = nat (k - e + 52)"
  have qn: "q * 2 ^ n = 2 powi k"
  proof -
    have "(2::rat) ^ n = 2 powi (k - e + 52)"
      using ek unfolding n_def by (simp add: power_int_nonneg_exp)
    then have "q * 2 ^ n = 2 powi (e - 52) * 2 powi (k - e + 52)" by (simp only: q_def)
    also have "\<dots> = 2 powi (e - 52 + (k - e + 52))" by (subst power_int_add) simp_all
    also have "e - 52 + (k - e + 52) = k" by simp
    finally show ?thesis .
  qed
  have "\<bar>x / q\<bar> = \<bar>x\<bar> / q" using q_pos by simp
  also have "\<dots> \<le> 2 powi k / q" using x q_pos by (simp add: divide_right_mono)
  also have "\<dots> = 2 ^ n" using qn q_pos by (simp add: field_simps)
  finally have "\<bar>x / q\<bar> \<le> of_int (2 ^ n)" by simp
  then have "\<bar>r\<bar> \<le> 2 ^ n" unfolding r_def by (rule round_half_even_abs_le)
  then have "(of_int \<bar>r\<bar> :: rat) \<le> of_int (2 ^ n)" by (rule iffD2 [OF of_int_le_iff])
  then have "\<bar>of_int r :: rat\<bar> \<le> 2 ^ n" by simp
  then have "\<bar>y\<bar> \<le> 2 ^ n * q" using q_pos unfolding y_def by (simp add: abs_mult mult_right_mono)
  then have y_le: "\<bar>y\<bar> \<le> 2 powi k" using qn by (simp add: mult.commute)
  have "(2::rat) powi k < 2 powi 1024" using k by (simp only: pow2_less_iff)
  then have "\<not> 2 powi 1024 \<le> \<bar>y\<bar>" using y_le by linarith
  then have "to_double x = Finite y"
    using False unfolding to_double_def nearest_def expo_def y_def r_def q_def e_def by (simp add: Let_def)
  then show ?thesis using y_le by blast
qed

lemma to_double_not_NaN [simp]: "to_double x \<noteq> NaN"
  by (simp add: to_double_def nearest_def expo_def Let_def)

lemma i2f_finite: "\<exists>y. i2f w = Finite y \<and> \<bar>y\<bar> \<le> 2 powi 63"
proof -
  have "- (2 ^ 63) \<le> sint w" "sint w < 2 ^ 63"
    using sint_range_size [of w] by (simp_all add: word_size)
  then have "\<bar>sint w\<bar> \<le> 2 ^ 63" by linarith
  then have "(of_int \<bar>sint w\<bar> :: rat) \<le> of_int (2 ^ 63)" by (rule iffD2 [OF of_int_le_iff])
  then have "\<bar>of_int (sint w) :: rat\<bar> \<le> 2 powi 63" by simp
  then show ?thesis unfolding i2f_def by (intro to_double_bound) simp_all
qed

text \<open>
  Evaluating a rounding: once the binade of a number is known, its double follows by
  arithmetic on numerals; integers up to \<open>2 ^ 53\<close> in magnitude are doubles already.
\<close>

lemma binade_eqI:
  assumes "2 powi e \<le> \<bar>x\<bar>" "\<bar>x\<bar> < 2 powi (e + 1)"
  shows "binade x = e"
proof -
  have "0 < (2::rat) powi e" by simp
  then have "0 < \<bar>x\<bar>" using assms(1) by (rule less_le_trans)
  then have "x \<noteq> 0" by simp
  then have b: "2 powi (binade x) \<le> \<bar>x\<bar>" "\<bar>x\<bar> < 2 powi (binade x + 1)"
    by (rule binade_bounds)+
  have "(2::rat) powi (binade x) < 2 powi (e + 1)" using b(1) assms(2) by linarith
  moreover have "(2::rat) powi e < 2 powi (binade x + 1)" using b(2) assms(1) by linarith
  ultimately show ?thesis by (simp only: pow2_less_iff)
qed

lemma to_double_normal:
  assumes "2 powi e \<le> \<bar>x\<bar>" "\<bar>x\<bar> < 2 powi (e + 1)" "- 1022 \<le> e" "e \<le> 1022"
  shows "to_double x = Finite (of_int (round_half_even (x / 2 powi (e - 52))) * 2 powi (e - 52))"
proof -
  have "0 < (2::rat) powi e" by simp
  then have "0 < \<bar>x\<bar>" using assms(1) by (rule less_le_trans)
  then have nz: "x \<noteq> 0" by simp
  have e: "max (binade x) (- 1022) = e" using binade_eqI [OF assms(1,2)] assms(3) by simp
  obtain y where "to_double x = Finite y"
    using to_double_bound [of x "e + 1"] assms by auto
  then show ?thesis
    using nz e by (simp add: to_double_def nearest_def expo_def Let_def split: if_splits)
qed

lemma round_half_even_of_int [simp]: "round_half_even (of_int k) = k"
  by (simp add: round_half_even_def)

lemma to_double_of_int:
  assumes "\<bar>n\<bar> \<le> 2 ^ 53"
  shows "to_double (of_int n) = Finite (of_int n)"
proof (cases "n = 0")
  case True
  then show ?thesis by (simp add: to_double_def nearest_def expo_def)
next
  case False
  define x :: rat where "x = of_int n"
  define e where "e = binade x"
  have nz: "x \<noteq> 0" using False by (simp add: x_def)
  have x1: "1 \<le> \<bar>x\<bar>"
  proof -
    have "1 \<le> \<bar>n\<bar>" using False by simp
    then have "(of_int 1 :: rat) \<le> of_int \<bar>n\<bar>" by (rule iffD2 [OF of_int_le_iff])
    then show ?thesis by (simp add: x_def)
  qed
  have x53: "\<bar>x\<bar> \<le> 2 powi 53"
  proof -
    have "(of_int \<bar>n\<bar> :: rat) \<le> of_int (2 ^ 53)" using assms by (rule iffD2 [OF of_int_le_iff])
    then show ?thesis by (simp add: x_def)
  qed
  have b: "2 powi e \<le> \<bar>x\<bar>" "\<bar>x\<bar> < 2 powi (e + 1)"
    unfolding e_def using binade_bounds [OF nz] by simp_all
  have "(2::rat) powi 0 < 2 powi (e + 1)" using x1 b(2) by simp
  then have "0 < e + 1" by (simp only: pow2_less_iff)
  then have e0: "0 \<le> e" by simp
  have "(2::rat) powi e \<le> 2 powi 53" using b(1) x53 by linarith
  then have e53: "e \<le> 53" by (simp only: pow2_le_iff)
  show ?thesis
  proof (cases "e = 53")
    case True
    then have "(of_int (2 ^ 53) :: rat) \<le> of_int \<bar>n\<bar>" using b(1) by (simp add: x_def)
    then have "2 ^ 53 \<le> \<bar>n\<bar>" by (simp only: of_int_le_iff)
    then have "n = 9007199254740992 \<or> n = - 9007199254740992" using assms by simp arith
    then show ?thesis
      using to_double_normal [of 53 "9007199254740992"] to_double_normal [of 53 "- 9007199254740992"]
      by (auto simp: round_half_even_def)
  next
    case False
    then have e52: "e \<le> 52" using e53 by simp
    define k where "k = nat (52 - e)"
    have q: "(2::rat) powi (e - 52) = 1 / 2 ^ k"
    proof -
      have "e - 52 = - int k" using e52 by (simp add: k_def)
      then show ?thesis by (simp add: power_int_minus_divide)
    qed
    have "x / 2 powi (e - 52) = of_int (n * 2 ^ k)" by (simp add: q x_def)
    then have "round_half_even (x / 2 powi (e - 52)) = n * 2 ^ k" by (simp only: round_half_even_of_int)
    then have "to_double x = Finite (of_int (n * 2 ^ k) * 2 powi (e - 52))"
      using to_double_normal [OF b] e0 e52 by simp
    then show ?thesis by (simp add: q x_def)
  qed
qed

lemma floor_rat_numeral:
  "\<lfloor>numeral a / numeral b :: rat\<rfloor> = numeral a div numeral b"
  by (metis floor_divide_of_int_eq of_int_numeral)

lemmas round_eval = round_half_even_def Let_def floor_rat_numeral

lemma lit_0_50_value: "lit_0_50 = Finite (1 / 2)"
  using to_double_normal [of "- 1" "1 / 2"] by (simp add: lit_0_50_def round_eval)

lemma lit_0_60_value: "lit_0_60 = Finite (5404319552844595 / 9007199254740992)"
  using to_double_normal [of "- 1" "3 / 5"] by (simp add: lit_0_60_def round_eval)

lemma lit_0_40_value: "lit_0_40 = Finite (3602879701896397 / 9007199254740992)"
  using to_double_normal [of "- 2" "2 / 5"] by (simp add: lit_0_40_def round_eval)

lemma default_tolerance_value:
  "default_tolerance = Finite (3602879701896397 / 72057594037927936)"
  using to_double_normal [of "- 5" "1 / 20"] by (simp add: default_tolerance_def round_eval)

lemma to_double_0: "to_double 0 = Finite 0"
  by (simp add: to_double_def nearest_def expo_def)

lemma i2f_0 [simp]: "i2f 0 = Finite 0"
  by (simp add: i2f_def to_double_def nearest_def expo_def)

lemma to_double_numeral:
  "numeral k \<le> (2::int) ^ 53 \<Longrightarrow> to_double (numeral k) = Finite (numeral k)"
  using to_double_of_int [of "numeral k"] by simp

lemma to_double_neg_numeral:
  "numeral k \<le> (2::int) ^ 53 \<Longrightarrow> to_double (- numeral k) = Finite (- numeral k)"
  using to_double_of_int [of "- numeral k"] by simp

lemma i2f_exact: "\<bar>sint w\<bar> \<le> 2 ^ 53 \<Longrightarrow> i2f w = Finite (of_int (sint w))"
  unfolding i2f_def by (rule to_double_of_int)

lemma ratio_550: "fdiv (i2f 550) (i2f 1000) = Finite (2476979795053773 / 4503599627370496)"
  using to_double_normal [of "- 1" "11 / 20"] by (simp add: i2f_exact round_eval)

lemma ratio_650: "fdiv (i2f 650) (i2f 1000) = Finite (5854679515581645 / 9007199254740992)"
  using to_double_normal [of "- 1" "13 / 20"] by (simp add: i2f_exact round_eval)

subsection \<open>Rounding is monotone\<close>

text \<open>
  Rounding to the nearest double preserves the order of the exact numbers, so a
  comparison of two doubles can only merge what the exact numbers separate.
\<close>

lemma round_half_even_mono:
  assumes "a \<le> b"
  shows "round_half_even a \<le> round_half_even b"
proof -
  have fa: "of_int \<lfloor>a\<rfloor> \<le> a" "a < of_int \<lfloor>a\<rfloor> + 1" by linarith+
  have fb: "of_int \<lfloor>b\<rfloor> \<le> b" "b < of_int \<lfloor>b\<rfloor> + 1" by linarith+
  have ra: "round_half_even a \<le> \<lfloor>a\<rfloor> + 1" by (simp add: round_half_even_def Let_def)
  have rb: "\<lfloor>b\<rfloor> \<le> round_half_even b" by (simp add: round_half_even_def Let_def)
  have "\<lfloor>a\<rfloor> \<le> \<lfloor>b\<rfloor>" using assms by (rule floor_mono)
  then consider "\<lfloor>a\<rfloor> < \<lfloor>b\<rfloor>" | "\<lfloor>a\<rfloor> = \<lfloor>b\<rfloor>" by linarith
  then show ?thesis
  proof cases
    case 1
    then show ?thesis using ra rb by linarith
  next
    case 2
    then show ?thesis using assms by (auto simp: round_half_even_def Let_def)
  qed
qed

lemma round_half_even_minus: "round_half_even (- z) = - round_half_even z"
proof (cases "z \<in> \<int>")
  case True
  then obtain k where "z = of_int k" by (auto elim: Ints_cases)
  then show ?thesis using round_half_even_of_int [of "- k"] by simp
next
  case False
  then have "z \<noteq> of_int \<lfloor>z\<rfloor>" by (metis Ints_of_int)
  then have fl: "\<lfloor>- z\<rfloor> = - \<lfloor>z\<rfloor> - 1"
    by (simp add: floor_minus ceiling_altdef)
  have fz: "of_int \<lfloor>z\<rfloor> \<le> z" "z < of_int \<lfloor>z\<rfloor> + 1" by linarith+
  show ?thesis
    unfolding round_half_even_def Let_def fl using fz
    by (auto simp: algebra_simps)
qed

lemma nearest_expo:
  "x \<noteq> 0 \<Longrightarrow> nearest x = of_int (round_half_even (x / 2 powi (expo x - 52))) * 2 powi (expo x - 52)"
  by (simp add: nearest_def Let_def)

lemma binade_mono:
  assumes "0 < x" "x \<le> y"
  shows "binade x \<le> binade y"
proof -
  have "2 powi (binade x) \<le> \<bar>x\<bar>" "\<bar>y\<bar> < 2 powi (binade y + 1)"
    using binade_bounds [of x] binade_bounds [of y] assms by auto
  then have "(2::rat) powi (binade x) < 2 powi (binade y + 1)" using assms by linarith
  then have "binade x < binade y + 1" by (simp only: pow2_less_iff)
  then show ?thesis by simp
qed

lemma nearest_upper:
  assumes "0 < x"
  shows "nearest x \<le> 2 powi (expo x + 1)"
proof -
  define q :: rat where "q = 2 powi (expo x - 52)"
  have q: "0 < q" by (simp add: q_def)
  have "\<bar>x\<bar> < 2 powi (binade x + 1)" using binade_bounds(2) [of x] assms by simp
  moreover have "(2::rat) powi (binade x + 1) \<le> 2 powi (expo x + 1)"
    by (simp add: pow2_le_iff expo_def)
  ultimately have "x \<le> 2 powi (expo x + 1)" using assms by linarith
  moreover have "(2::rat) powi (expo x + 1) = 2 ^ 53 * q"
  proof -
    have "(2::rat) ^ 53 * q = 2 powi 53 * 2 powi (expo x - 52)" by (simp add: q_def)
    also have "\<dots> = 2 powi (53 + (expo x - 52))" by (subst power_int_add) simp_all
    also have "53 + (expo x - 52) = expo x + 1" by simp
    finally show ?thesis by simp
  qed
  ultimately have "x / q \<le> of_int (2 ^ 53)" using q by (simp add: field_simps)
  then have "round_half_even (x / q) \<le> round_half_even (of_int (2 ^ 53))"
    by (rule round_half_even_mono)
  then have "round_half_even (x / q) \<le> 2 ^ 53" by (simp only: round_half_even_of_int)
  then have "(of_int (round_half_even (x / q)) :: rat) \<le> of_int (2 ^ 53)"
    by (rule iffD2 [OF of_int_le_iff])
  then have "of_int (round_half_even (x / q)) * q \<le> 2 ^ 53 * q"
    using q by (simp add: mult_right_mono)
  then show ?thesis
    using assms \<open>(2::rat) powi (expo x + 1) = 2 ^ 53 * q\<close>
    by (simp add: nearest_expo q_def)
qed

lemma nearest_lower:
  assumes "0 < x" "- 1022 \<le> binade x"
  shows "2 powi (expo x) \<le> nearest x"
proof -
  define q :: rat where "q = 2 powi (expo x - 52)"
  have q: "0 < q" by (simp add: q_def)
  have e: "expo x = binade x" using assms(2) by (simp add: expo_def)
  have "2 powi (expo x) \<le> x" using binade_bounds(1) [of x] assms(1) e by simp
  moreover have eq: "(2::rat) powi (expo x) = 2 ^ 52 * q"
  proof -
    have "(2::rat) ^ 52 * q = 2 powi 52 * 2 powi (expo x - 52)" by (simp add: q_def)
    also have "\<dots> = 2 powi (52 + (expo x - 52))" by (subst power_int_add) simp_all
    also have "52 + (expo x - 52) = expo x" by simp
    finally show ?thesis by simp
  qed
  ultimately have "of_int (2 ^ 52) \<le> x / q" using q by (simp add: field_simps)
  then have "round_half_even (of_int (2 ^ 52)) \<le> round_half_even (x / q)"
    by (rule round_half_even_mono)
  then have "2 ^ 52 \<le> round_half_even (x / q)" by (simp only: round_half_even_of_int)
  then have "(of_int (2 ^ 52) :: rat) \<le> of_int (round_half_even (x / q))"
    by (rule iffD2 [OF of_int_le_iff])
  then have "2 ^ 52 * q \<le> of_int (round_half_even (x / q)) * q"
    using q by (simp add: mult_right_mono)
  then show ?thesis using assms(1) eq by (simp add: nearest_expo q_def)
qed

lemma nearest_mono_pos:
  assumes "0 < x" "x \<le> y"
  shows "nearest x \<le> nearest y"
proof -
  have y: "0 < y" using assms by simp
  have "expo x \<le> expo y" using binade_mono [OF assms] by (simp add: expo_def)
  then consider "expo x = expo y" | "expo x < expo y" by linarith
  then show ?thesis
  proof cases
    case 1
    define q :: rat where "q = 2 powi (expo y - 52)"
    have q: "0 < q" by (simp add: q_def)
    have "x / q \<le> y / q" using assms(2) q by (simp add: divide_right_mono)
    then have "round_half_even (x / q) \<le> round_half_even (y / q)" by (rule round_half_even_mono)
    then have "(of_int (round_half_even (x / q)) :: rat) \<le> of_int (round_half_even (y / q))"
      by (rule iffD2 [OF of_int_le_iff])
    then have "of_int (round_half_even (x / q)) * q \<le> of_int (round_half_even (y / q)) * q"
      using q by (simp add: mult_right_mono)
    then show ?thesis using assms(1) y 1 by (simp add: nearest_expo q_def)
  next
    case 2
    then have bin: "- 1022 \<le> binade y" "expo y = binade y" by (auto simp: expo_def)
    have "nearest x \<le> 2 powi (expo x + 1)" using assms(1) by (rule nearest_upper)
    also have "\<dots> \<le> 2 powi (expo y)" using 2 by (simp add: pow2_le_iff)
    also have "\<dots> \<le> nearest y" using y bin(1) by (rule nearest_lower)
    finally show ?thesis .
  qed
qed

lemma nearest_minus: "nearest (- x) = - nearest x"
  by (simp add: nearest_def expo_def binade_def Let_def round_half_even_minus)

lemma nearest_nonneg: "0 \<le> x \<Longrightarrow> 0 \<le> nearest x"
proof (cases "x = 0")
  case True
  then show ?thesis by (simp add: nearest_def)
next
  case False
  assume "0 \<le> x"
  then have x: "0 < x" using False by simp
  have "0 < (2::rat) powi (expo x - 52)" by simp
  then have "0 \<le> x / 2 powi (expo x - 52)" using x by simp
  then have "round_half_even 0 \<le> round_half_even (x / 2 powi (expo x - 52))"
    by (rule round_half_even_mono)
  then have "0 \<le> round_half_even (x / 2 powi (expo x - 52))"
    using round_half_even_of_int [of 0] by simp
  then show ?thesis using x by (simp add: nearest_expo)
qed

lemma nearest_mono:
  assumes "x \<le> y"
  shows "nearest x \<le> nearest y"
proof -
  consider "0 < x" | "y < 0" | "x \<le> 0" "0 \<le> y" using assms by linarith
  then show ?thesis
  proof cases
    case 1
    then show ?thesis using assms by (rule nearest_mono_pos)
  next
    case 2
    then have "0 < - y" "- y \<le> - x" using assms by simp_all
    then have "nearest (- y) \<le> nearest (- x)" by (rule nearest_mono_pos)
    then show ?thesis by (simp add: nearest_minus)
  next
    case 3
    have "0 \<le> nearest y" using 3(2) by (rule nearest_nonneg)
    moreover have "0 \<le> nearest (- x)" using 3(1) by (intro nearest_nonneg) simp
    ultimately show ?thesis by (simp add: nearest_minus)
  qed
qed

lemma to_double_mono:
  assumes "x \<le> y"
  shows "fle (to_double x) (to_double y)"
proof -
  have n: "nearest x \<le> nearest y" using assms by (rule nearest_mono)
  have pos: "\<And>z. \<not> 0 < z \<Longrightarrow> nearest z \<le> 0"
  proof -
    fix z :: rat
    assume "\<not> 0 < z"
    then have "0 \<le> nearest (- z)" by (intro nearest_nonneg) simp
    then show "nearest z \<le> 0" by (simp add: nearest_minus)
  qed
  have neg: "\<And>z. 0 < z \<Longrightarrow> 0 \<le> nearest z" by (intro nearest_nonneg) simp
  have big: "(0::rat) < 2 powi 1024" by simp
  show ?thesis
    using n pos [of x] pos [of y] neg [of x] neg [of y] big assms
    unfolding to_double_def Let_def
    by (auto simp: abs_if split: if_splits)
qed


subsection \<open>Shares of a total against the literals\<close>

text \<open>
  A share \<open>n / t\<close> with \<open>\<bar>t\<bar> \<le> 2 ^ 50\<close> that differs from 1/2, 3/5 or 2/5 is at least
  \<open>1 / (5 * 2 ^ 50)\<close> away from it, more than the rounding of the literal and of the
  quotient can bridge: the comparison of the doubles is the comparison of the exact
  numbers.
\<close>

lemma rat_gap:
  fixes a b c d :: int
  assumes "0 < b" "0 < d" "(of_int a / of_int b :: rat) < of_int c / of_int d"
  shows "(of_int a / of_int b :: rat) + 1 / (of_int b * of_int d) \<le> of_int c / of_int d"
proof -
  have b: "(0::rat) < of_int b" and d: "(0::rat) < of_int d" using assms by simp_all
  have "(of_int a * of_int d :: rat) < of_int c * of_int b"
    using assms(3) b d by (simp add: field_simps)
  then have "(of_int (a * d) :: rat) < of_int (c * b)" by simp
  then have "a * d < c * b" by (simp only: of_int_less_iff)
  then have "a * d + 1 \<le> c * b" by simp
  then have "(of_int (a * d + 1) :: rat) \<le> of_int (c * b)" by (rule iffD2 [OF of_int_le_iff])
  then have "(of_int a * of_int d + 1 :: rat) \<le> of_int c * of_int b" by simp
  then have "(of_int a * of_int d + 1) / (of_int b * of_int d) \<le>
      (of_int c * of_int b :: rat) / (of_int b * of_int d)"
    using b d by (intro divide_right_mono) simp_all
  moreover have "(of_int a * of_int d + 1) / (of_int b * of_int d) =
      (of_int a / of_int b :: rat) + 1 / (of_int b * of_int d)"
    using b d by (simp add: field_simps)
  moreover have "(of_int c * of_int b :: rat) / (of_int b * of_int d) = of_int c / of_int d"
    using b d by simp
  ultimately show ?thesis by simp
qed

lemma neighbour_doubles:
  "to_double (1 / 2 - 1 / 2 ^ 51) = Finite (1 / 2 - 1 / 2 ^ 51)"
  "to_double (1 / 2 + 1 / 2 ^ 51) = Finite (1 / 2 + 1 / 2 ^ 51)"
  "to_double (5404319552844596 / 2 ^ 53) = Finite (5404319552844596 / 2 ^ 53)"
  "to_double (3602879701896396 / 2 ^ 53) = Finite (3602879701896396 / 2 ^ 53)"
  using to_double_normal [of "- 2" "1 / 2 - 1 / 2 ^ 51"]
    to_double_normal [of "- 1" "1 / 2 + 1 / 2 ^ 51"]
    to_double_normal [of "- 1" "5404319552844596 / 2 ^ 53"]
    to_double_normal [of "- 2" "3602879701896396 / 2 ^ 53"]
  by (simp_all add: round_eval)

lemma fle_below: "fle x (Finite p) \<Longrightarrow> p < l \<Longrightarrow> \<not> fle (Finite l) x"
  by (cases x) auto

lemma fle_above: "fle (Finite p) x \<Longrightarrow> h < p \<Longrightarrow> \<not> fle x (Finite h)"
  by (cases x) auto

lemma ratio_fraction:
  assumes "T \<noteq> 0"
  obtains a b :: int where "0 < b" "b = \<bar>T\<bar>" "ratio N T = of_int a / of_int b"
proof (cases "0 < T")
  case True
  show ?thesis
  proof (rule that)
    show "0 < T" by fact
    show "T = \<bar>T\<bar>" using True by linarith
    show "ratio N T = of_int N / of_int T" by (simp only: ratio_def)
  qed
next
  case False
  show ?thesis
  proof (rule that)
    show "0 < - T" using False assms by linarith
    show "- T = \<bar>T\<bar>" using False by linarith
    have "(of_int (- N) :: rat) / of_int (- T) = of_int N / of_int T"
      by (simp only: of_int_minus minus_divide_left [symmetric] minus_divide_right [symmetric] minus_minus)
    then show "ratio N T = of_int (- N) / of_int (- T)" by (simp only: ratio_def)
  qed
qed

lemma small_denominator:
  fixes b d :: int
  assumes "0 < b" "b \<le> 2 ^ 50" "0 < d"
  shows "(1 :: rat) / (2 ^ 50 * of_int d) \<le> 1 / (of_int b * of_int d)"
proof -
  have "(of_int b :: rat) \<le> of_int (2 ^ 50)" using assms(2) by (rule iffD2 [OF of_int_le_iff])
  then have "(of_int b :: rat) \<le> 2 ^ 50" by (simp only: of_int_power of_int_numeral)
  moreover have d: "(0 :: rat) < of_int d" using assms(3) by (simp only: of_int_0_less_iff)
  ultimately have "(of_int b * of_int d :: rat) \<le> 2 ^ 50 * of_int d"
    by (intro mult_right_mono) (simp_all only: less_imp_le)
  moreover have "(0 :: rat) < of_int b * of_int d"
    using assms(1) d by (intro mult_pos_pos) (simp_all only: of_int_0_less_iff)
  ultimately show ?thesis by (intro divide_left_mono) (simp_all only: zero_le_one mult_pos_pos zero_less_power zero_less_numeral)
qed

lemma ratio_gap_below:
  fixes c d :: int
  assumes "T \<noteq> 0" "\<bar>T\<bar> \<le> 2 ^ 50" "0 < d" "ratio N T < of_int c / of_int d"
  shows "ratio N T + 1 / (2 ^ 50 * of_int d) \<le> of_int c / of_int d"
proof -
  obtain a b :: int where ab: "0 < b" "b = \<bar>T\<bar>" "ratio N T = of_int a / of_int b"
    using ratio_fraction [OF assms(1)] by blast
  have "(of_int a / of_int b :: rat) + 1 / (of_int b * of_int d) \<le> of_int c / of_int d"
    using ab(1) assms(3) assms(4) [unfolded ab(3)] by (rule rat_gap)
  moreover have "(1 :: rat) / (2 ^ 50 * of_int d) \<le> 1 / (of_int b * of_int d)"
    using ab(1) assms(2) [folded ab(2)] assms(3) by (rule small_denominator)
  ultimately show ?thesis unfolding ab(3) by (rule order_trans [OF add_left_mono, rotated])
qed

lemma ratio_gap_above:
  fixes c d :: int
  assumes "T \<noteq> 0" "\<bar>T\<bar> \<le> 2 ^ 50" "0 < d" "of_int c / of_int d < ratio N T"
  shows "of_int c / of_int d + 1 / (2 ^ 50 * of_int d) \<le> ratio N T"
proof -
  obtain a b :: int where ab: "0 < b" "b = \<bar>T\<bar>" "ratio N T = of_int a / of_int b"
    using ratio_fraction [OF assms(1)] by blast
  have "(of_int c / of_int d :: rat) + 1 / (of_int d * of_int b) \<le> of_int a / of_int b"
    using assms(3) ab(1) assms(4) [unfolded ab(3)] by (rule rat_gap)
  then have "(of_int c / of_int d :: rat) + 1 / (of_int b * of_int d) \<le> of_int a / of_int b"
    by (simp only: mult.commute)
  moreover have "(1 :: rat) / (2 ^ 50 * of_int d) \<le> 1 / (of_int b * of_int d)"
    using ab(1) assms(2) [folded ab(2)] assms(3) by (rule small_denominator)
  ultimately show ?thesis unfolding ab(3) by (rule order_trans [OF add_left_mono, rotated])
qed

lemma ratio_050_060:
  assumes "T \<noteq> 0" "\<bar>T\<bar> \<le> 2 ^ 50"
  shows "between_f (to_double (ratio N T)) lit_0_50 lit_0_60 \<longleftrightarrow>
    1 / 2 \<le> ratio N T \<and> ratio N T \<le> 3 / 5"
proof
  assume "1 / 2 \<le> ratio N T \<and> ratio N T \<le> 3 / 5"
  then show "between_f (to_double (ratio N T)) lit_0_50 lit_0_60"
    by (simp add: between_f_def lit_0_50_def lit_0_60_def to_double_mono)
next
  assume b: "between_f (to_double (ratio N T)) lit_0_50 lit_0_60"
  show "1 / 2 \<le> ratio N T \<and> ratio N T \<le> 3 / 5"
  proof (rule ccontr)
    assume "\<not> (1 / 2 \<le> ratio N T \<and> ratio N T \<le> 3 / 5)"
    then consider "ratio N T < 1 / 2" | "3 / 5 < ratio N T" by linarith
    then show False
    proof cases
      case 1
      then have "ratio N T < of_int 1 / of_int 2" by simp
      then have "ratio N T + 1 / (2 ^ 50 * of_int 2) \<le> of_int 1 / of_int 2"
        by (intro ratio_gap_below assms) simp
      then have "ratio N T \<le> 1 / 2 - 1 / 2 ^ 51" by simp
      then have "fle (to_double (ratio N T)) (to_double (1 / 2 - 1 / 2 ^ 51))"
        by (rule to_double_mono)
      then have "\<not> fle (Finite (1 / 2)) (to_double (ratio N T))"
        unfolding neighbour_doubles by (rule fle_below) simp
      then show False using b by (simp add: between_f_def lit_0_50_value)
    next
      case 2
      then have "of_int 3 / of_int 5 < ratio N T" by simp
      then have "of_int 3 / of_int 5 + 1 / (2 ^ 50 * of_int 5) \<le> ratio N T"
        by (intro ratio_gap_above assms) simp
      then have "5404319552844596 / 2 ^ 53 \<le> ratio N T" by simp
      then have "fle (to_double (5404319552844596 / 2 ^ 53)) (to_double (ratio N T))"
        by (rule to_double_mono)
      then have "\<not> fle (to_double (ratio N T)) (Finite (5404319552844595 / 9007199254740992))"
        unfolding neighbour_doubles by (rule fle_above) simp
      then show False using b by (simp add: between_f_def lit_0_60_value)
    qed
  qed
qed

lemma ratio_040_050:
  assumes "T \<noteq> 0" "\<bar>T\<bar> \<le> 2 ^ 50"
  shows "between_f (to_double (ratio N T)) lit_0_40 lit_0_50 \<longleftrightarrow>
    2 / 5 \<le> ratio N T \<and> ratio N T \<le> 1 / 2"
proof
  assume "2 / 5 \<le> ratio N T \<and> ratio N T \<le> 1 / 2"
  then show "between_f (to_double (ratio N T)) lit_0_40 lit_0_50"
    by (simp add: between_f_def lit_0_50_def lit_0_40_def to_double_mono)
next
  assume b: "between_f (to_double (ratio N T)) lit_0_40 lit_0_50"
  show "2 / 5 \<le> ratio N T \<and> ratio N T \<le> 1 / 2"
  proof (rule ccontr)
    assume "\<not> (2 / 5 \<le> ratio N T \<and> ratio N T \<le> 1 / 2)"
    then consider "ratio N T < 2 / 5" | "1 / 2 < ratio N T" by linarith
    then show False
    proof cases
      case 1
      then have "ratio N T < of_int 2 / of_int 5" by simp
      then have "ratio N T + 1 / (2 ^ 50 * of_int 5) \<le> of_int 2 / of_int 5"
        by (intro ratio_gap_below assms) simp
      then have "ratio N T \<le> 3602879701896396 / 2 ^ 53" by simp
      then have "fle (to_double (ratio N T)) (to_double (3602879701896396 / 2 ^ 53))"
        by (rule to_double_mono)
      then have "\<not> fle (Finite (3602879701896397 / 9007199254740992)) (to_double (ratio N T))"
        unfolding neighbour_doubles by (rule fle_below) simp
      then show False using b by (simp add: between_f_def lit_0_40_value)
    next
      case 2
      then have "of_int 1 / of_int 2 < ratio N T" by simp
      then have "of_int 1 / of_int 2 + 1 / (2 ^ 50 * of_int 2) \<le> ratio N T"
        by (intro ratio_gap_above assms) simp
      then have "1 / 2 + 1 / 2 ^ 51 \<le> ratio N T" by simp
      then have "fle (to_double (1 / 2 + 1 / 2 ^ 51)) (to_double (ratio N T))"
        by (rule to_double_mono)
      then have "\<not> fle (to_double (ratio N T)) (Finite (1 / 2))"
        unfolding neighbour_doubles by (rule fle_above) simp
      then show False using b by (simp add: between_f_def lit_0_50_value)
    qed
  qed
qed

section \<open>What each check computes\<close>

subsection \<open>Reading columns\<close>

lemma getitem_Some [simp]: "num_cols df c = Some xs \<Longrightarrow> getitem df c = Inr xs"
  by (simp add: getitem_def)

lemma getitem_None [simp]: "num_cols df c = None \<Longrightarrow> getitem df c = Inl (KeyError c)"
  by (simp add: getitem_def)

lemma has_column_num [simp]:
  "c \<noteq> ''date'' \<Longrightarrow> has_column df c \<longleftrightarrow> num_cols df c \<noteq> None"
  by (simp add: has_column_def)

lemma case_outcome_eq_Inr:
  "(case m of Inl e \<Rightarrow> Inl e | Inr (a, b, c) \<Rightarrow> f a b c) = Inr y \<longleftrightarrow>
   (\<exists>a b c. m = Inr (a, b, c) \<and> f a b c = Inr y)"
  by (cases m) auto

subsection \<open>The blocks volume check\<close>

lemma series_add3: "series_add (series_add atom photon) spin = leased_totals atom photon spin"
proof (induction atom arbitrary: photon spin)
  case Nil
  then show ?case by (simp add: series_add_def leased_totals_def)
next
  case (Cons a atom)
  show ?case
  proof (cases photon)
    case Nil
    then show ?thesis by (simp add: series_add_def leased_totals_def)
  next
    case p: (Cons p photon')
    show ?thesis
    proof (cases spin)
      case Nil
      then show ?thesis by (simp add: series_add_def leased_totals_def)
    next
      case s: (Cons s spin')
      have "series_add (series_add atom photon') spin' = leased_totals atom photon' spin'"
        by (rule Cons.IH)
      then show ?thesis using p s by (simp add: series_add_def leased_totals_def)
    qed
  qed
qed

lemma check_blocks_leased_range_present:
  assumes "num_cols df ''new_blocks_atom'' = Some atom"
    and "num_cols df ''new_blocks_photon'' = Some photon"
    and "num_cols df ''new_blocks_spin'' = Some spin"
  shows "check_blocks_leased_range df =
    (let leased = leased_totals atom photon spin;
         ok = list_all (\<lambda>t. 1000 \<le> sint t \<and> sint t \<le> 10000) leased
     in Inr (ok, df\<lparr>num_cols := (num_cols df)(''total_blocks_leased'' \<mapsto> leased)\<rparr>,
             [if ok then BlocksInRange else BlocksOutOfRange]))"
  using assms
  by (simp add: check_blocks_leased_range_def Let_def series_add3 between_i_def)

subsection \<open>The distribution check\<close>

lemma check_equal_distribution_present:
  assumes "num_cols df ''new_blocks_atom'' = Some atom"
    and "num_cols df ''new_blocks_photon'' = Some photon"
    and "num_cols df ''new_blocks_spin'' = Some spin"
  shows "check_equal_distribution df tolerance =
    (let total_atom = sum_list atom;
         total_photon = sum_list photon;
         total_spin = sum_list spin;
         avg = fdiv (i2f (total_atom + total_photon + total_spin)) (Finite 3);
         limit = fmul tolerance avg
     in if fgt (fabs (fsub (i2f total_atom) avg)) limit \<or>
           fgt (fabs (fsub (i2f total_photon) avg)) limit \<or>
           fgt (fabs (fsub (i2f total_spin) avg)) limit
        then Inr (False, df,
               [DistributionUnequal, DistributionTotals total_atom total_photon total_spin avg])
        else Inr (True, df, [DistributionEqual]))"
  using assms by (simp add: check_equal_distribution_def Let_def)

text \<open>
  Three totals of zero pass at every tolerance: the average and the three differences
  are zero, the limit is zero or NaN, and zero is greater than neither.
\<close>

lemma check_equal_distribution_zero:
  assumes "num_cols df ''new_blocks_atom'' = Some atom"
    and "num_cols df ''new_blocks_photon'' = Some photon"
    and "num_cols df ''new_blocks_spin'' = Some spin"
    and "sum_list atom = 0" "sum_list photon = 0" "sum_list spin = 0"
  shows "check_equal_distribution df tolerance = Inr (True, df, [DistributionEqual])"
  using assms
  by (cases tolerance)
    (simp_all add: check_equal_distribution_present Let_def to_double_0 fgt_def)

subsection \<open>The assignment check\<close>

lemma sums_match_iff:
  assumes "length new = length workloads" "length older = length workloads"
  shows "list_all (\<lambda>(s, t). s = t) (zip (series_add new older) workloads) \<longleftrightarrow>
    (\<forall>i < length workloads. new ! i + older ! i = workloads ! i)"
  using assms by (simp add: list_all_length series_add_def)

lemma ratios_iff:
  assumes "length xs = length workloads"
  shows "list_all (\<lambda>r. between_f r lo hi) (series_div xs workloads) \<longleftrightarrow>
    (\<forall>i < length workloads. between_f (fdiv (i2f (xs ! i)) (i2f (workloads ! i))) lo hi)"
  using assms by (simp add: list_all_length series_div_def)

lemma check_workload_assignment_present:
  assumes "num_cols df ''total_workloads'' = Some workloads"
    and "num_cols df ''workloads_new_blocks'' = Some new"
    and "num_cols df ''workloads_older_blocks'' = Some older"
  shows "check_workload_assignment df =
    (if \<not> list_all (\<lambda>(s, t). s = t) (zip (series_add new older) workloads)
     then Inr (False, df, [AssignmentMismatch])
     else if \<not> list_all (\<lambda>r. between_f r lit_0_50 lit_0_60) (series_div new workloads)
     then Inr (False, df, [RatioTodayBad])
     else if \<not> list_all (\<lambda>r. between_f r lit_0_40 lit_0_50) (series_div older workloads)
     then Inr (False, df, [RatioOlderBad])
     else Inr (True, df, [AssignmentOk]))"
  using assms by (simp add: check_workload_assignment_def required_cols_def Let_def)

lemma lit_finite:
  "\<exists>y. lit_0_50 = Finite y" "\<exists>y. lit_0_60 = Finite y" "\<exists>y. lit_0_40 = Finite y"
  using to_double_bound [of "1 / 2" 0] to_double_bound [of "3 / 5" 0] to_double_bound [of "2 / 5" 0]
  by (auto simp: lit_0_50_def lit_0_60_def lit_0_40_def)

lemma ratio_by_zero_outside: "\<not> between_f (fdiv (i2f x) (Finite 0)) (Finite l) (Finite h)"
proof -
  obtain a where "i2f x = Finite a" using i2f_finite by blast
  then show ?thesis by (simp add: between_f_def)
qed

lemma check_workload_range_missing:
  "num_cols df ''total_workloads'' = None \<Longrightarrow>
     check_workload_range df = Inl (KeyError ''total_workloads'')"
  by (simp add: check_workload_range_def)

lemma check_workload_assignment_missing:
  "num_cols df ''total_workloads'' = None \<Longrightarrow>
     \<exists>missing. check_workload_assignment df = Inr (False, df, [MissingAssignment missing]) \<and>
       ''total_workloads'' \<in> set missing"
  by (simp add: check_workload_assignment_def required_cols_def Let_def)

lemma fdiv_ratio:
  assumes "\<bar>sint x\<bar> \<le> 2 ^ 53" "\<bar>sint t\<bar> \<le> 2 ^ 53" "sint t \<noteq> 0"
  shows "fdiv (i2f x) (i2f t) = to_double (ratio (sint x) (sint t))"
proof -
  have "(of_int (sint t) :: rat) \<noteq> 0" using assms(3) by (simp only: of_int_eq_0_iff not_False_eq_True)
  then show ?thesis
    unfolding i2f_exact [OF assms(1)] i2f_exact [OF assms(2)] ratio_def
    by (simp only: fdiv.simps if_False)
qed

lemma sint_eq_0_iff: "sint (t :: int64) = 0 \<longleftrightarrow> t = 0"
  by (rule signed_eq_0_iff)

lemma sint_add_small:
  fixes x y :: int64
  assumes "\<bar>sint x\<bar> \<le> 2 ^ 50" "\<bar>sint y\<bar> \<le> 2 ^ 50"
  shows "sint (x + y) = sint x + sint y"
proof -
  have "\<bar>sint x + sint y\<bar> \<le> 2 ^ 50 + 2 ^ 50" using assms by (rule abs_triangle_ineq [THEN order_trans, OF add_mono])
  then have "\<bar>sint x + sint y\<bar> \<le> 2 ^ 51" by simp
  then have "- (2 ^ 63) \<le> sint x + sint y" "sint x + sint y < 2 ^ 63" by simp_all
  then have "signed_take_bit 63 (sint x + sint y) = sint x + sint y"
    by (rule signed_take_bit_int_eq_self)
  then show ?thesis by (simp add: sint_word_add)
qed

lemma word_sum_exact:
  fixes x y t :: int64
  assumes "\<bar>sint x\<bar> \<le> 2 ^ 50" "\<bar>sint y\<bar> \<le> 2 ^ 50"
  shows "x + y = t \<longleftrightarrow> sint x + sint y = sint t"
  unfolding sint_add_small [OF assms, symmetric] by (rule word_eq_iff_signed)

lemma record_test_exact:
  fixes new older workloads :: int64
  assumes "\<bar>sint new\<bar> \<le> 2 ^ 50" "\<bar>sint older\<bar> \<le> 2 ^ 50" "\<bar>sint workloads\<bar> \<le> 2 ^ 50"
  shows "new + older = workloads \<and>
      between_f (fdiv (i2f new) (i2f workloads)) lit_0_50 lit_0_60 \<and>
      between_f (fdiv (i2f older) (i2f workloads)) lit_0_40 lit_0_50 \<longleftrightarrow>
    assignment_rule (sint new) (sint older) (sint workloads)"
proof (cases "workloads = 0")
  case True
  obtain l h where lits: "lit_0_50 = Finite l" "lit_0_60 = Finite h" using lit_finite by blast
  have "\<not> between_f (fdiv (i2f new) (Finite 0)) (Finite l) (Finite h)"
    by (rule ratio_by_zero_outside)
  then have "\<not> between_f (fdiv (i2f new) (i2f workloads)) lit_0_50 lit_0_60"
    unfolding lits True by simp
  moreover have "\<not> assignment_rule (sint new) (sint older) (sint workloads)"
    unfolding True by (simp add: assignment_rule_def)
  ultimately show ?thesis by blast
next
  case False
  then have nz: "sint workloads \<noteq> 0" by (simp only: sint_eq_0_iff not_False_eq_True)
  have p: "(2::int) ^ 50 \<le> 2 ^ 53" by simp
  have b53: "\<bar>sint new\<bar> \<le> 2 ^ 53" "\<bar>sint older\<bar> \<le> 2 ^ 53" "\<bar>sint workloads\<bar> \<le> 2 ^ 53"
    by (rule order_trans [OF assms(1) p], rule order_trans [OF assms(2) p],
      rule order_trans [OF assms(3) p])
  have n: "fdiv (i2f new) (i2f workloads) = to_double (ratio (sint new) (sint workloads))"
    using b53(1,3) nz by (rule fdiv_ratio)
  have o: "fdiv (i2f older) (i2f workloads) = to_double (ratio (sint older) (sint workloads))"
    using b53(2,3) nz by (rule fdiv_ratio)
  show ?thesis
    unfolding n o ratio_050_060 [OF nz assms(3)] ratio_040_050 [OF nz assms(3)]
      word_sum_exact [OF assms(1,2)] assignment_rule_def
    using nz by blast
qed

subsection \<open>The date range check\<close>

lemma series_min_Min:
  "valid_stamps ts = n # ns \<Longrightarrow> series_min ts = Some (Min (set (n # ns)))"
  using Min.set_eq_fold [of n ns] by (simp add: series_min_def)

lemma series_max_Max:
  "valid_stamps ts = n # ns \<Longrightarrow> series_max ts = Some (Max (set (n # ns)))"
  using Max.set_eq_fold [of n ns] by (simp add: series_max_def)

lemma check_date_range_six_months_span:
  assumes "date_col df = Some raw" and "to_datetime parse raw = Inr ts"
    and "span_ns ts = Some w" and "w < 2 ^ 63"
  shows "check_date_range_six_months parse df =
    (let d = w div ns_per_day; ok = (170 \<le> d \<and> d \<le> 190)
     in Inr (ok, df\<lparr>date_col := Some (Parsed ts)\<rparr>,
             [if ok then DateRangeOk (Some d) else DateRangeBad (Some d)]))"
proof -
  obtain n ns where vs: "valid_stamps ts = n # ns"
    using assms(3) by (auto simp: span_ns_def split: list.splits)
  have w: "w = Max (set (n # ns)) - Min (set (n # ns))"
    using assms(3) vs by (simp add: span_ns_def)
  have "Max (set (n # ns)) \<in> set (n # ns)" by (rule Max_in) simp_all
  then have "Min (set (n # ns)) \<le> Max (set (n # ns))" by (intro Min_le) simp_all
  then have "0 \<le> w" using w by simp
  then have "timedelta (series_max ts) (series_min ts) = Inr (Some w)"
    using assms(4) w series_min_Min [OF vs] series_max_Max [OF vs] by (simp add: timedelta_def)
  then show ?thesis
    using assms(1,2)
    by (auto simp: check_date_range_six_months_def getdate_def Let_def days_def nan_less_def
        nan_greater_def)
qed

lemma check_date_range_six_months_no_date:
  assumes "date_col df = Some raw" and "to_datetime parse raw = Inr ts"
    and "valid_stamps ts = []"
  shows "check_date_range_six_months parse df =
    Inr (True, df\<lparr>date_col := Some (Parsed ts)\<rparr>, [DateRangeOk None])"
  using assms
  by (simp add: check_date_range_six_months_def getdate_def Let_def days_def nan_less_def
      nan_greater_def series_min_def series_max_def timedelta_def)

subsection \<open>What a check leaves of the dataset, and running it again\<close>

lemma check_required_columns_frame:
  "check_required_columns df = Inr (ok, df', out) \<Longrightarrow> df' = df"
  by (auto simp: check_required_columns_def Let_def split: if_splits)

lemma check_workload_range_frame:
  "check_workload_range df = Inr (ok, df', out) \<Longrightarrow> df' = df"
  by (auto simp: check_workload_range_def split: sum.splits if_splits)

lemma check_equal_distribution_frame:
  "check_equal_distribution df tolerance = Inr (ok, df', out) \<Longrightarrow> df' = df"
  by (auto simp: check_equal_distribution_def Let_def split: sum.splits if_splits)

lemma check_workload_assignment_frame:
  "check_workload_assignment df = Inr (ok, df', out) \<Longrightarrow> df' = df"
  by (auto simp: check_workload_assignment_def Let_def split: sum.splits if_splits)

lemma check_date_range_frame:
  assumes "check_date_range_six_months parse df = Inr (ok, df', out)"
  shows "\<exists>raw ts. date_col df = Some raw \<and> to_datetime parse raw = Inr ts \<and>
    df' = df\<lparr>date_col := Some (Parsed ts)\<rparr>"
  using assms
  by (auto simp: check_date_range_six_months_def getdate_def Let_def
      split: sum.splits option.splits if_splits)

lemma check_blocks_frame:
  assumes "check_blocks_leased_range df = Inr (ok, df', out)"
  shows "\<exists>atom photon spin.
    num_cols df ''new_blocks_atom'' = Some atom \<and>
    num_cols df ''new_blocks_photon'' = Some photon \<and>
    num_cols df ''new_blocks_spin'' = Some spin \<and>
    df' = df\<lparr>num_cols := (num_cols df)(''total_blocks_leased'' \<mapsto> leased_totals atom photon spin)\<rparr>"
  using assms
  by (auto simp: check_blocks_leased_range_def getitem_def Let_def series_add3
      split: sum.splits option.splits if_splits)

lemma check_date_range_again:
  assumes "check_date_range_six_months parse df = Inr (ok, df', out)"
  shows "check_date_range_six_months parse df' = Inr (ok, df', out)"
  using assms
  by (auto simp: check_date_range_six_months_def getdate_def Let_def
      split: sum.splits option.splits if_splits)

lemma check_blocks_again:
  assumes "check_blocks_leased_range df = Inr (ok, df', out)"
  shows "check_blocks_leased_range df' = Inr (ok, df', out)"
proof -
  obtain atom photon spin where *:
    "num_cols df ''new_blocks_atom'' = Some atom"
    "num_cols df ''new_blocks_photon'' = Some photon"
    "num_cols df ''new_blocks_spin'' = Some spin"
    "df' = df\<lparr>num_cols := (num_cols df)(''total_blocks_leased'' \<mapsto> leased_totals atom photon spin)\<rparr>"
    using check_blocks_frame [OF assms] by blast
  have "num_cols df' ''new_blocks_atom'' = Some atom"
    "num_cols df' ''new_blocks_photon'' = Some photon"
    "num_cols df' ''new_blocks_spin'' = Some spin"
    using * by simp_all
  then have "check_blocks_leased_range df' = check_blocks_leased_range df"
    using * by (simp add: check_blocks_leased_range_present Let_def)
  then show ?thesis using assms by simp
qed

subsection \<open>The orchestrator\<close>

lemma run_all_checks_Inr:
  "run_all_checks parse df = Inr (ok, df', out) \<longleftrightarrow>
   (\<exists>cols_ok df1 out1 date_ok df2 out2 blocks_ok df3 out3 workload_ok df4 out4 distribution_ok out5.
      check_required_columns df = Inr (cols_ok, df1, out1) \<and>
      check_date_range_six_months parse df1 = Inr (date_ok, df2, out2) \<and>
      check_blocks_leased_range df2 = Inr (blocks_ok, df3, out3) \<and>
      check_workload_range df3 = Inr (workload_ok, df4, out4) \<and>
      check_equal_distribution df4 default_tolerance = Inr (distribution_ok, df', out5) \<and>
      ok = (cols_ok \<and> date_ok \<and> blocks_ok \<and> workload_ok \<and> distribution_ok) \<and>
      out = [CheckingColumns] @ out1 @ [CheckingDateRange] @ out2 @ [CheckingBlocks] @ out3 @
            [CheckingWorkloads] @ out4 @ [CheckingDistribution] @ out5 @
            [if ok then AllPassed else SomeFailed])"
  by (simp only: run_all_checks_def case_outcome_eq_Inr Let_def) blast

section \<open>The examples of the specification\<close>

lemma ratio_450: "fdiv (i2f 450) (i2f 1000) = Finite (8106479329266893 / 18014398509481984)"
  using to_double_normal [of "- 2" "9 / 20"] by (simp add: i2f_exact round_eval)

lemma ratio_350: "fdiv (i2f 350) (i2f 1000) = Finite (3152519739159347 / 9007199254740992)"
  using to_double_normal [of "- 2" "7 / 20"] by (simp add: i2f_exact round_eval)

lemmas lit_values = lit_0_50_value lit_0_60_value lit_0_40_value

lemma limit_800: "fmul default_tolerance (Finite 800) = Finite 40"
  using to_double_normal [of 5 "3602879701896397 / 72057594037927936 * 800"]
  by (simp add: default_tolerance_value round_eval)

lemma limit_1000: "fmul default_tolerance (Finite 1000) = Finite 50"
  using to_double_normal [of 5 "3602879701896397 / 72057594037927936 * 1000"]
  by (simp add: default_tolerance_value round_eval)

lemmas distribution_eval =
  Let_def i2f_exact to_double_numeral to_double_neg_numeral to_double_0 fgt_def

lemma big_doubles:
  "i2f 600000000000000001 = Finite 600000000000000000"
  "i2f 399999999999999999 = Finite 400000000000000000"
  "i2f 1000000000000000000 = Finite 1000000000000000000"
  using to_double_normal [of 59 600000000000000001] to_double_normal [of 58 399999999999999999]
    to_double_normal [of 59 1000000000000000000]
  by (simp_all add: i2f_def round_eval)

subsection \<open>A half-year table\<close>

lemma required_only_cols:
  "date_col required_only = Some (Raw [''2024-01-01'', ''2024-06-29''])"
  "num_cols required_only ''new_blocks_atom'' = Some [400, 400]"
  "num_cols required_only ''new_blocks_photon'' = Some [400, 400]"
  "num_cols required_only ''new_blocks_spin'' = Some [300, 500]"
  "num_cols required_only ''workloads_older_blocks'' = Some [450000, 900000]"
  "num_cols required_only ''workloads_new_blocks'' = Some [550000, 1100000]"
  "num_cols required_only ''total_daily_cost'' = Some [100, 100]"
  "num_cols required_only ''total_workloads'' = None"
  by (simp_all add: required_only_def)

lemma half_year_cols:
  "date_col half_year = Some (Raw [''2024-01-01'', ''2024-06-29''])"
  "num_cols half_year ''new_blocks_atom'' = Some [400, 400]"
  "num_cols half_year ''new_blocks_photon'' = Some [400, 400]"
  "num_cols half_year ''new_blocks_spin'' = Some [300, 500]"
  "num_cols half_year ''workloads_older_blocks'' = Some [450000, 900000]"
  "num_cols half_year ''workloads_new_blocks'' = Some [550000, 1100000]"
  "num_cols half_year ''total_daily_cost'' = Some [100, 100]"
  "num_cols half_year ''total_workloads'' = Some [1000000, 2000000]"
  by (simp_all add: half_year_def required_only_def)

lemma half_year_parsed_cols:
  "num_cols half_year_parsed = num_cols half_year"
  "date_col half_year_parsed =
     Some (Parsed [Some 1704067200000000000, Some 1719619200000000000])"
  by (simp_all add: half_year_parsed_def)

lemma half_year_checked_cols:
  "num_cols half_year_checked ''new_blocks_atom'' = Some [400, 400]"
  "num_cols half_year_checked ''new_blocks_photon'' = Some [400, 400]"
  "num_cols half_year_checked ''new_blocks_spin'' = Some [300, 500]"
  "num_cols half_year_checked ''total_workloads'' = Some [1000000, 2000000]"
  by (simp_all add: half_year_checked_def half_year_cols)

lemma example_dates:
  "to_datetime example_parse (Raw [''2024-01-01'', ''2024-06-29'']) =
     Inr [Some 1704067200000000000, Some 1719619200000000000]"
  "span_ns [Some 1704067200000000000, Some 1719619200000000000] = Some 15552000000000000"
  by (simp_all add: example_parse_def span_ns_def valid_stamps_def)

lemma half_year_required:
  "check_required_columns half_year = Inr (True, half_year, [AllRequiredPresent])"
  by (simp add: check_required_columns_def expected_columns_def has_column_def half_year_cols)

lemma half_year_dates:
  "check_date_range_six_months example_parse half_year =
     Inr (True, half_year_parsed, [DateRangeOk (Some 180)])"
  using check_date_range_six_months_span [OF half_year_cols(1) example_dates]
  by (simp add: ns_per_day_def half_year_parsed_def)

lemma half_year_blocks:
  "check_blocks_leased_range half_year_parsed = Inr (True, half_year_checked, [BlocksInRange])"
  by (simp add: check_blocks_leased_range_present [where atom = "[400, 400]"
        and photon = "[400, 400]" and spin = "[300, 500]"]
      half_year_parsed_cols half_year_cols leased_totals_def half_year_checked_def)

lemma half_year_workloads:
  "check_workload_range half_year_checked = Inr (True, half_year_checked, [WorkloadsInRange])"
  by (simp add: check_workload_range_def half_year_checked_cols between_i_def)

lemma half_year_distribution:
  "check_equal_distribution half_year_checked default_tolerance =
     Inr (True, half_year_checked, [DistributionEqual])"
  by (simp add: check_equal_distribution_present [where atom = "[400, 400]"
        and photon = "[400, 400]" and spin = "[300, 500]"] half_year_checked_cols
      distribution_eval limit_800)

lemma required_only_required:
  "check_required_columns required_only = Inr (True, required_only, [AllRequiredPresent])"
  by (simp add: check_required_columns_def expected_columns_def has_column_def
      required_only_cols)

lemma required_only_dates:
  "check_date_range_six_months example_parse required_only =
     Inr (True,
       required_only\<lparr>date_col := Some (Parsed [Some 1704067200000000000, Some 1719619200000000000])\<rparr>,
       [DateRangeOk (Some 180)])"
  using check_date_range_six_months_span [OF required_only_cols(1) example_dates]
  by (simp add: ns_per_day_def)

lemma required_only_blocks:
  "check_blocks_leased_range
     (required_only\<lparr>date_col := Some (Parsed [Some 1704067200000000000, Some 1719619200000000000])\<rparr>) =
   Inr (True,
     required_only
       \<lparr>date_col := Some (Parsed [Some 1704067200000000000, Some 1719619200000000000]),
        num_cols := (num_cols required_only)(''total_blocks_leased'' \<mapsto> [1100, 1300])\<rparr>,
     [BlocksInRange])"
  by (simp add: check_blocks_leased_range_present [where atom = "[400, 400]"
        and photon = "[400, 400]" and spin = "[300, 500]"] required_only_cols leased_totals_def)

lemma unparseable_date_cols:
  "date_col unparseable_date = Some (Raw [''2024-01-01'', ''29 June''])"
  "num_cols unparseable_date = num_cols half_year"
  by (simp_all add: unparseable_date_def)

lemma run_all_checks_ParseError:
  assumes "date_col df = Some dates" "to_datetime parse dates = Inl ParseError"
  shows "run_all_checks parse df = Inl ParseError"
  using assms
  by (simp add: run_all_checks_def check_required_columns_def check_date_range_six_months_def
      getdate_def Let_def)

lemma one_day_workloads_cols:
  "num_cols (one_day_workloads w n o') ''total_workloads'' = Some [w]"
  "num_cols (one_day_workloads w n o') ''workloads_new_blocks'' = Some [n]"
  "num_cols (one_day_workloads w n o') ''workloads_older_blocks'' = Some [o']"
  by (simp_all add: one_day_workloads_def)


section \<open>The claims\<close>

text \<open>
  C1. A dataset without the column \<^verbatim>\<open>total_workloads\<close> should make both workload checks
  report the missing column and return false. \<^verbatim>\<open>check_workload_assignment\<close> does: it tests
  for its columns first. \<^verbatim>\<open>check_workload_range\<close> has no such test: it reads the column,
  and the read raises \<^verbatim>\<open>KeyError\<close>. On the two records that hold exactly the columns of
  the schema check, the volume check raises and the assignment check returns false with
  the missing name.
\<close>

theorem check_workload_range_raises:
  "check_workload_range required_only = Inl (KeyError ''total_workloads'') \<and>
   check_workload_assignment required_only =
     Inr (False, required_only, [MissingAssignment [''total_workloads'']])"
  by (simp add: check_workload_range_missing required_only_cols check_workload_assignment_def
      required_cols_def has_column_def Let_def)

text \<open>
  C2, as amended. On every dataset on which each of the five checks returns a boolean,
  \<^verbatim>\<open>run_all_checks\<close> runs the schema check, the date range check, the blocks volume check,
  the workload volume check and the distribution check (at the default tolerance), in
  this order, each on the dataset as the checks before it left it and whatever the
  earlier booleans were. It prints its five headings, each followed by what that check
  printed, and a summary line; its result is the conjunction of the five booleans. No
  line of the assignment check is printed: it is never called. A date that the parser
  rejects is fatal to the run, as the error handling design has it: the run ends in the
  date range check with the parse error, and there is no result.
\<close>

theorem run_all_checks_sequence:
  "(check_required_columns df = Inr (cols_ok, df, cols_out) \<and>
    check_date_range_six_months parse df = Inr (date_ok, dated, date_out) \<and>
    check_blocks_leased_range dated = Inr (blocks_ok, leased, blocks_out) \<and>
    check_workload_range leased = Inr (workload_ok, leased, workload_out) \<and>
    check_equal_distribution leased default_tolerance = Inr (distribution_ok, leased, distribution_out) \<longrightarrow>
    run_all_checks parse df =
      Inr (cols_ok \<and> date_ok \<and> blocks_ok \<and> workload_ok \<and> distribution_ok, leased,
        [CheckingColumns] @ cols_out @ [CheckingDateRange] @ date_out @ [CheckingBlocks] @ blocks_out @
        [CheckingWorkloads] @ workload_out @ [CheckingDistribution] @ distribution_out @
        [if cols_ok \<and> date_ok \<and> blocks_ok \<and> workload_ok \<and> distribution_ok
         then AllPassed else SomeFailed])) \<and>
   (date_col df = Some dates \<and> to_datetime parse dates = Inl ParseError \<longrightarrow>
    run_all_checks parse df = Inl ParseError)"
proof (intro conjI impI)
  assume "check_required_columns df = Inr (cols_ok, df, cols_out) \<and>
    check_date_range_six_months parse df = Inr (date_ok, dated, date_out) \<and>
    check_blocks_leased_range dated = Inr (blocks_ok, leased, blocks_out) \<and>
    check_workload_range leased = Inr (workload_ok, leased, workload_out) \<and>
    check_equal_distribution leased default_tolerance = Inr (distribution_ok, leased, distribution_out)"
  then show "run_all_checks parse df =
      Inr (cols_ok \<and> date_ok \<and> blocks_ok \<and> workload_ok \<and> distribution_ok, leased,
        [CheckingColumns] @ cols_out @ [CheckingDateRange] @ date_out @ [CheckingBlocks] @ blocks_out @
        [CheckingWorkloads] @ workload_out @ [CheckingDistribution] @ distribution_out @
        [if cols_ok \<and> date_ok \<and> blocks_ok \<and> workload_ok \<and> distribution_ok
         then AllPassed else SomeFailed])"
    unfolding run_all_checks_Inr by blast
next
  assume "date_col df = Some dates \<and> to_datetime parse dates = Inl ParseError"
  then show "run_all_checks parse df = Inl ParseError"
    by (simp add: run_all_checks_ParseError)
qed

text \<open>
  On the half-year table all five checks pass, and the run says so; with the date of the
  second record written \<^verbatim>\<open>June\<close> the run ends with the parse error.
\<close>

theorem run_all_checks_sequence_witness:
  "run_all_checks example_parse half_year =
     Inr (True, half_year_checked,
       [CheckingColumns, AllRequiredPresent, CheckingDateRange, DateRangeOk (Some 180),
        CheckingBlocks, BlocksInRange, CheckingWorkloads, WorkloadsInRange,
        CheckingDistribution, DistributionEqual, AllPassed]) \<and>
   run_all_checks example_parse (half_year\<lparr>date_col := Some (Raw [''2024-01-01'', ''June''])\<rparr>) =
     Inl ParseError"
  using run_all_checks_sequence [where df = half_year and parse = example_parse
      and cols_ok = True and cols_out = "[AllRequiredPresent]"
      and date_ok = True and dated = half_year_parsed and date_out = "[DateRangeOk (Some 180)]"
      and blocks_ok = True and leased = half_year_checked and blocks_out = "[BlocksInRange]"
      and workload_ok = True and workload_out = "[WorkloadsInRange]"
      and distribution_ok = True and distribution_out = "[DistributionEqual]"]
    run_all_checks_sequence [where df = "half_year\<lparr>date_col := Some (Raw [''2024-01-01'', ''June''])\<rparr>"
      and parse = example_parse and dates = "Raw [''2024-01-01'', ''June'']"]
  by (simp add: half_year_required half_year_dates half_year_blocks half_year_workloads
      half_year_distribution example_parse_def)

text \<open>
  The claim as it stands fails on a table that holds every column the checks read, with
  one date that the parser rejects: the schema check passes, the run ends in the date
  range check with the parse error, the three checks after it do not run, and there is
  no boolean.
\<close>

theorem run_all_checks_unparseable:
  "check_required_columns unparseable_date = Inr (True, unparseable_date, [AllRequiredPresent]) \<and>
   run_all_checks example_parse unparseable_date = Inl ParseError"
  by (simp add: run_all_checks_ParseError [where dates = "Raw [''2024-01-01'', ''29 June'']"]
      check_required_columns_def expected_columns_def has_column_def unparseable_date_cols
      half_year_cols example_parse_def)

text \<open>
  C3, as amended. On a dataset that holds the three assignment columns, with every value
  at most \<open>2 ^ 50\<close> in magnitude, \<^verbatim>\<open>check_workload_assignment\<close> returns, and returns true
  exactly when every record satisfies the rule in exact arithmetic: the two parts add up
  to \<^verbatim>\<open>total_workloads\<close>, the share of \<^verbatim>\<open>workloads_new_blocks\<close> in \<^verbatim>\<open>total_workloads\<close> lies
  in [0.50, 0.60] and that of \<^verbatim>\<open>workloads_older_blocks\<close> in [0.40, 0.50]. One record that
  breaks one of the three makes it false. The columns of one table have one entry per
  record.
\<close>

theorem check_workload_assignment_exact:
  assumes "num_cols df ''total_workloads'' = Some workloads"
    and "num_cols df ''workloads_new_blocks'' = Some new"
    and "num_cols df ''workloads_older_blocks'' = Some older"
    and "length new = length workloads" "length older = length workloads"
    and "\<forall>i < length workloads.
      \<bar>sint (new ! i)\<bar> \<le> 2 ^ 50 \<and> \<bar>sint (older ! i)\<bar> \<le> 2 ^ 50 \<and>
      \<bar>sint (workloads ! i)\<bar> \<le> 2 ^ 50"
  shows "\<exists>ok out. check_workload_assignment df = Inr (ok, df, out) \<and>
    (ok \<longleftrightarrow>
      (\<forall>i < length workloads.
         assignment_rule (sint (new ! i)) (sint (older ! i)) (sint (workloads ! i))))"
proof -
  have rule: "new ! i + older ! i = workloads ! i \<and>
      between_f (fdiv (i2f (new ! i)) (i2f (workloads ! i))) lit_0_50 lit_0_60 \<and>
      between_f (fdiv (i2f (older ! i)) (i2f (workloads ! i))) lit_0_40 lit_0_50 \<longleftrightarrow>
    assignment_rule (sint (new ! i)) (sint (older ! i)) (sint (workloads ! i))"
    if "i < length workloads" for i
    using assms(6) that by (intro record_test_exact) blast+
  let ?sums = "list_all (\<lambda>(s, t). s = t) (zip (series_add new older) workloads)"
  let ?today = "list_all (\<lambda>r. between_f r lit_0_50 lit_0_60) (series_div new workloads)"
  let ?older = "list_all (\<lambda>r. between_f r lit_0_40 lit_0_50) (series_div older workloads)"
  have "?sums \<and> ?today \<and> ?older \<longleftrightarrow>
    (\<forall>i < length workloads.
       assignment_rule (sint (new ! i)) (sint (older ! i)) (sint (workloads ! i)))"
    unfolding sums_match_iff [OF assms(4,5)] ratios_iff [OF assms(4)] ratios_iff [OF assms(5)]
    using rule by blast
  moreover have "\<exists>out. check_workload_assignment df = Inr (?sums \<and> ?today \<and> ?older, df, out)"
    by (simp add: check_workload_assignment_present [OF assms(1-3)])
  ultimately show ?thesis by blast
qed

text \<open>
  The example of the specification: 550 and 450 of 1000 workloads pass (shares 0.55 and
  0.45); 650 and 350 fail, although they add up.
\<close>

theorem check_workload_assignment_exact_witness:
  "(\<exists>out. check_workload_assignment (one_day_workloads 1000 550 450) =
      Inr (True, one_day_workloads 1000 550 450, out)) \<and>
   (\<exists>out. check_workload_assignment (one_day_workloads 1000 650 350) =
      Inr (False, one_day_workloads 1000 650 350, out))"
  using check_workload_assignment_exact [of "one_day_workloads 1000 550 450" "[1000]" "[550]" "[450]"]
    check_workload_assignment_exact [of "one_day_workloads 1000 650 350" "[1000]" "[650]" "[350]"]
  by (auto simp: one_day_workloads_cols assignment_rule_def ratio_def)

text \<open>
  The claim as it stands fails on large values: of \<open>10 ^ 18\<close> workloads, 600000000000000001
  are more than 0.60 of the total and 399999999999999999 less than 0.40, yet the check
  returns true. The conversion to double precision rounds the parts to 600000000000000000
  and 400000000000000000, and the quotients are the doubles of the literals.
\<close>

theorem check_workload_assignment_rounds:
  "check_workload_assignment
     (one_day_workloads 1000000000000000000 600000000000000001 399999999999999999) =
     Inr (True, one_day_workloads 1000000000000000000 600000000000000001 399999999999999999,
       [AssignmentOk]) \<and>
   \<not> assignment_rule 600000000000000001 399999999999999999 1000000000000000000"
proof
  have "fdiv (Finite 600000000000000000) (Finite 1000000000000000000) = lit_0_60"
    by (simp add: lit_0_60_def)
  moreover have "fdiv (Finite 400000000000000000) (Finite 1000000000000000000) = lit_0_40"
    by (simp add: lit_0_40_def)
  ultimately show "check_workload_assignment
     (one_day_workloads 1000000000000000000 600000000000000001 399999999999999999) =
     Inr (True, one_day_workloads 1000000000000000000 600000000000000001 399999999999999999,
       [AssignmentOk])"
    by (simp add: check_workload_assignment_present [where workloads = "[1000000000000000000]"
          and new = "[600000000000000001]" and older = "[399999999999999999]"]
        one_day_workloads_cols series_add_def series_div_def big_doubles between_f_def
        lit_values)
  show "\<not> assignment_rule 600000000000000001 399999999999999999 1000000000000000000"
    by (simp add: assignment_rule_def ratio_def)
qed

text \<open>
  C4. When some record has \<^verbatim>\<open>total_workloads\<close> equal to 0, \<^verbatim>\<open>check_workload_assignment\<close>
  returns false and does not raise: the division yields NaN or an infinity, which lies
  in no interval.
\<close>

theorem check_workload_assignment_zero_total:
  assumes "num_cols df ''total_workloads'' = Some workloads"
    and "num_cols df ''workloads_new_blocks'' = Some new"
    and "num_cols df ''workloads_older_blocks'' = Some older"
    and "length new = length workloads" "length older = length workloads"
    and "i < length workloads" "workloads ! i = 0"
  shows "\<exists>out. check_workload_assignment df = Inr (False, df, out)"
proof -
  obtain l h where lits: "lit_0_50 = Finite l" "lit_0_60 = Finite h" using lit_finite by blast
  have "\<not> between_f (fdiv (i2f (new ! i)) (Finite 0)) (Finite l) (Finite h)"
    by (rule ratio_by_zero_outside)
  then have "\<not> between_f (fdiv (i2f (new ! i)) (i2f (workloads ! i))) lit_0_50 lit_0_60"
    unfolding lits assms(7) by simp
  then have "\<not> list_all (\<lambda>r. between_f r lit_0_50 lit_0_60) (series_div new workloads)"
    using assms(4,6) by (auto simp: ratios_iff)
  then show ?thesis using assms(1-3) by (simp add: check_workload_assignment_present)
qed

theorem check_workload_assignment_zero_total_witness:
  "\<exists>out. check_workload_assignment (one_day_workloads 0 0 0) =
     Inr (False, one_day_workloads 0 0 0, out)"
  using check_workload_assignment_zero_total [of "one_day_workloads 0 0 0" "[0]" "[0]" "[0]" 0]
  by (simp add: one_day_workloads_cols)


text \<open>
  C6. The date range check should return true exactly when the days from the earliest
  to the latest date lie in [170, 190]. On a column that holds no date (a file with a
  header and no record) there is no such span, yet the check returns true: the minimum
  and the maximum are \<^verbatim>\<open>NaT\<close>, their difference has NaN days, and both comparisons with
  NaN are false. The docstring asks that the column cover about six months.
\<close>

theorem check_date_range_six_months_empty:
  "span_ns [] = None \<and>
   check_date_range_six_months example_parse header_only =
     Inr (True, header_only\<lparr>date_col := Some (Parsed [])\<rparr>, [DateRangeOk None])"
proof
  show "span_ns [] = None" by (simp add: span_ns_def valid_stamps_def)
  show "check_date_range_six_months example_parse header_only =
     Inr (True, header_only\<lparr>date_col := Some (Parsed [])\<rparr>, [DateRangeOk None])"
    by (rule check_date_range_six_months_no_date [where raw = "Raw []"])
      (simp_all add: header_only_def valid_stamps_def)
qed



text \<open>
  C8. Whenever a check returns: the schema check, the workload volume check, the
  distribution check and the assignment check return the dataset as they received it;
  the date range check changes nothing but the \<^verbatim>\<open>date\<close> column, which then holds the
  parsed dates; the blocks volume check changes nothing but the column
  \<^verbatim>\<open>total_blocks_leased\<close>, which then holds the sums.
\<close>

theorem checks_frame:
  "(check_required_columns df = Inr (ok, df', out) \<longrightarrow> df' = df) \<and>
   (check_workload_range df = Inr (ok, df', out) \<longrightarrow> df' = df) \<and>
   (check_equal_distribution df tolerance = Inr (ok, df', out) \<longrightarrow> df' = df) \<and>
   (check_workload_assignment df = Inr (ok, df', out) \<longrightarrow> df' = df) \<and>
   (check_date_range_six_months parse df = Inr (ok, df', out) \<longrightarrow>
      num_cols df' = num_cols df \<and>
      (\<exists>raw ts. date_col df = Some raw \<and> to_datetime parse raw = Inr ts \<and>
         date_col df' = Some (Parsed ts))) \<and>
   (check_blocks_leased_range df = Inr (ok, df', out) \<longrightarrow>
      date_col df' = date_col df \<and>
      (\<forall>c. c \<noteq> ''total_blocks_leased'' \<longrightarrow> num_cols df' c = num_cols df c) \<and>
      (\<exists>atom photon spin.
         num_cols df ''new_blocks_atom'' = Some atom \<and>
         num_cols df ''new_blocks_photon'' = Some photon \<and>
         num_cols df ''new_blocks_spin'' = Some spin \<and>
         num_cols df' ''total_blocks_leased'' = Some (leased_totals atom photon spin)))"
proof (intro conjI impI)
  assume "check_date_range_six_months parse df = Inr (ok, df', out)"
  then obtain raw ts where *: "date_col df = Some raw" "to_datetime parse raw = Inr ts"
    "df' = df\<lparr>date_col := Some (Parsed ts)\<rparr>"
    using check_date_range_frame by blast
  show "num_cols df' = num_cols df" using * by simp
  show "\<exists>raw ts. date_col df = Some raw \<and> to_datetime parse raw = Inr ts \<and>
         date_col df' = Some (Parsed ts)" using * by simp
next
  assume "check_blocks_leased_range df = Inr (ok, df', out)"
  then obtain atom photon spin where *:
    "num_cols df ''new_blocks_atom'' = Some atom"
    "num_cols df ''new_blocks_photon'' = Some photon"
    "num_cols df ''new_blocks_spin'' = Some spin"
    "df' = df\<lparr>num_cols := (num_cols df)(''total_blocks_leased'' \<mapsto> leased_totals atom photon spin)\<rparr>"
    using check_blocks_frame by blast
  show "date_col df' = date_col df" using * by simp
  show "\<forall>c. c \<noteq> ''total_blocks_leased'' \<longrightarrow> num_cols df' c = num_cols df c" using * by simp
  show "\<exists>atom photon spin.
         num_cols df ''new_blocks_atom'' = Some atom \<and>
         num_cols df ''new_blocks_photon'' = Some photon \<and>
         num_cols df ''new_blocks_spin'' = Some spin \<and>
         num_cols df' ''total_blocks_leased'' = Some (leased_totals atom photon spin)"
    using * by simp
qed (simp_all add: check_required_columns_frame check_workload_range_frame
      check_equal_distribution_frame check_workload_assignment_frame)

text \<open>
  On the half-year table: the date range check leaves the numeric columns and the parsed
  dates, the blocks volume check leaves the dates and the category columns and adds the
  totals, the workload volume check leaves the table.
\<close>

theorem checks_frame_witness:
  "(\<exists>ok df' out. check_date_range_six_months example_parse half_year = Inr (ok, df', out) \<and>
      num_cols df' = num_cols half_year \<and>
      date_col df' = Some (Parsed [Some 1704067200000000000, Some 1719619200000000000])) \<and>
   (\<exists>ok df' out. check_blocks_leased_range half_year_parsed = Inr (ok, df', out) \<and>
      date_col df' = date_col half_year_parsed \<and>
      num_cols df' ''new_blocks_atom'' = Some [400, 400] \<and>
      num_cols df' ''total_blocks_leased'' = Some [1100, 1300]) \<and>
   (\<exists>ok df' out. check_workload_range half_year_checked = Inr (ok, df', out) \<and>
      df' = half_year_checked)"
proof (intro conjI)
  have "num_cols half_year_parsed = num_cols half_year \<and>
    (\<exists>raw ts. date_col half_year = Some raw \<and> to_datetime example_parse raw = Inr ts \<and>
       date_col half_year_parsed = Some (Parsed ts))"
    using checks_frame [where df = half_year and df' = half_year_parsed and ok = True
        and out = "[DateRangeOk (Some 180)]" and parse = example_parse] half_year_dates
    by blast
  then show "\<exists>ok df' out. check_date_range_six_months example_parse half_year = Inr (ok, df', out) \<and>
      num_cols df' = num_cols half_year \<and>
      date_col df' = Some (Parsed [Some 1704067200000000000, Some 1719619200000000000])"
    using half_year_dates half_year_parsed_cols(2) by blast
  have "date_col half_year_checked = date_col half_year_parsed \<and>
    (\<forall>c. c \<noteq> ''total_blocks_leased'' \<longrightarrow>
       num_cols half_year_checked c = num_cols half_year_parsed c)"
    using checks_frame [where df = half_year_parsed and df' = half_year_checked and ok = True
        and out = "[BlocksInRange]"] half_year_blocks
    by blast
  then show "\<exists>ok df' out. check_blocks_leased_range half_year_parsed = Inr (ok, df', out) \<and>
      date_col df' = date_col half_year_parsed \<and>
      num_cols df' ''new_blocks_atom'' = Some [400, 400] \<and>
      num_cols df' ''total_blocks_leased'' = Some [1100, 1300]"
    using half_year_blocks half_year_checked_cols(1)
    by (intro exI [of _ True] exI [of _ half_year_checked] exI [of _ "[BlocksInRange]"])
      (simp add: half_year_checked_def)
  have "half_year_checked = half_year_checked"
    using checks_frame [where df = half_year_checked and df' = half_year_checked and ok = True
        and out = "[WorkloadsInRange]"] half_year_workloads
    by blast
  then show "\<exists>ok df' out. check_workload_range half_year_checked = Inr (ok, df', out) \<and>
      df' = half_year_checked"
    using half_year_workloads by blast
qed

text \<open>
  C9. A check that has returned on a dataset returns the same boolean when it is run
  again on the dataset it left, for each of the six checks; it also prints the same and
  leaves that dataset as it is.
\<close>

theorem checks_repeatable:
  "(check_required_columns df = Inr (ok, df', out) \<longrightarrow>
      check_required_columns df' = Inr (ok, df', out)) \<and>
   (check_date_range_six_months parse df = Inr (ok, df', out) \<longrightarrow>
      check_date_range_six_months parse df' = Inr (ok, df', out)) \<and>
   (check_blocks_leased_range df = Inr (ok, df', out) \<longrightarrow>
      check_blocks_leased_range df' = Inr (ok, df', out)) \<and>
   (check_workload_range df = Inr (ok, df', out) \<longrightarrow>
      check_workload_range df' = Inr (ok, df', out)) \<and>
   (check_equal_distribution df tolerance = Inr (ok, df', out) \<longrightarrow>
      check_equal_distribution df' tolerance = Inr (ok, df', out)) \<and>
   (check_workload_assignment df = Inr (ok, df', out) \<longrightarrow>
      check_workload_assignment df' = Inr (ok, df', out))"
  using check_required_columns_frame [of df ok df' out]
    check_workload_range_frame [of df ok df' out]
    check_equal_distribution_frame [of df tolerance ok df' out]
    check_workload_assignment_frame [of df ok df' out]
    check_date_range_again [of parse df ok df' out]
    check_blocks_again [of df ok df' out]
  by auto

text \<open>
  On the half-year table, the two checks that assign a column: run again on the table
  they left, they return what they returned.
\<close>

theorem checks_repeatable_witness:
  "check_date_range_six_months example_parse half_year_parsed =
     Inr (True, half_year_parsed, [DateRangeOk (Some 180)]) \<and>
   check_blocks_leased_range half_year_checked = Inr (True, half_year_checked, [BlocksInRange])"
  using checks_repeatable [where df = half_year and df' = half_year_parsed and ok = True
      and out = "[DateRangeOk (Some 180)]" and parse = example_parse]
    checks_repeatable [where df = half_year_parsed and df' = half_year_checked and ok = True
      and out = "[BlocksInRange]"]
    half_year_dates half_year_blocks
  by blast

text \<open>
  C10. On a dataset with no record the per-record checks hold vacuously: with the
  columns they read present and empty, the blocks volume check, the workload volume
  check and the assignment check return true, and the distribution check returns true,
  for every tolerance, the three totals being zero.
\<close>

theorem empty_dataset_passes:
  assumes "num_cols df ''new_blocks_atom'' = Some []"
    and "num_cols df ''new_blocks_photon'' = Some []"
    and "num_cols df ''new_blocks_spin'' = Some []"
    and "num_cols df ''total_workloads'' = Some []"
    and "num_cols df ''workloads_new_blocks'' = Some []"
    and "num_cols df ''workloads_older_blocks'' = Some []"
  shows "check_blocks_leased_range df =
      Inr (True, df\<lparr>num_cols := (num_cols df)(''total_blocks_leased'' \<mapsto> [])\<rparr>, [BlocksInRange]) \<and>
    check_workload_range df = Inr (True, df, [WorkloadsInRange]) \<and>
    check_workload_assignment df = Inr (True, df, [AssignmentOk]) \<and>
    check_equal_distribution df tolerance = Inr (True, df, [DistributionEqual])"
proof (intro conjI)
  show "check_blocks_leased_range df =
      Inr (True, df\<lparr>num_cols := (num_cols df)(''total_blocks_leased'' \<mapsto> [])\<rparr>, [BlocksInRange])"
    using assms(1-3) by (simp add: check_blocks_leased_range_present leased_totals_def)
  show "check_workload_range df = Inr (True, df, [WorkloadsInRange])"
    using assms(4) by (simp add: check_workload_range_def)
  show "check_workload_assignment df = Inr (True, df, [AssignmentOk])"
    using assms(4-6)
    by (simp add: check_workload_assignment_present series_add_def series_div_def)
  show "check_equal_distribution df tolerance = Inr (True, df, [DistributionEqual])"
    using assms(1-3) by (simp add: check_equal_distribution_zero)
qed

text \<open>The file with a header and no record passes the four checks.\<close>

theorem empty_dataset_passes_witness:
  "check_blocks_leased_range header_only =
      Inr (True, header_only\<lparr>num_cols := (num_cols header_only)(''total_blocks_leased'' \<mapsto> [])\<rparr>,
        [BlocksInRange]) \<and>
    check_workload_range header_only = Inr (True, header_only, [WorkloadsInRange]) \<and>
    check_workload_assignment header_only = Inr (True, header_only, [AssignmentOk]) \<and>
    check_equal_distribution header_only default_tolerance =
      Inr (True, header_only, [DistributionEqual])"
  by (rule empty_dataset_passes) (simp_all add: header_only_def)

end
